theory Spec2Isabelle
  imports Main
begin

section \<open>Data model (types.ts)\<close>

text \<open>
  A JavaScript string is held as the byte sequence of its UTF-8 encoding, one \<^typ>\<open>char\<close>
  per byte.  Emptiness of a string, the only property of record fields the encoders test,
  does not depend on this choice.
\<close>

subsection \<open>Numbers\<close>

text \<open>
  A JavaScript \<open>number\<close> is an integer, a finite number that is not an integer, \<open>NaN\<close>
  or an infinity.  \<open>Decimal m d\<close> is the number \<open>m / 10\<^sup>d\<close>; it stands for a number
  that is not an integer when \<open>d > 0\<close> and \<open>m\<close> is no multiple of 10, and then the digits
  of \<open>m\<close> are the significant digits that \<open>Number::toString\<close> prints.  Rounding to 64 bits
  is not modelled: every integer and every decimal fraction is a number, and \<open>-0\<close> is \<open>0\<close>.
  The fields \<open>length\<close> and \<open>position\<close> of a track are numbers of this kind.  The indices
  and sizes of playlists (\<open>selectedTrack\<close>, \<open>maxTracks\<close>, \<open>chunkSize\<close>) are integers.
\<close>

datatype number = Integer int | Decimal int nat | NaN | Infinity | NegInfinity

text \<open>The comparisons \<open>x < 0\<close>, \<open>x > 0\<close> and \<open>x === 0\<close>; each is false of \<open>NaN\<close>.\<close>

fun less_zero :: "number \<Rightarrow> bool" where
  "less_zero (Integer i) = (i < 0)"
| "less_zero (Decimal m d) = (m < 0)"
| "less_zero NaN = False"
| "less_zero Infinity = False"
| "less_zero NegInfinity = True"



fun is_finite :: "number \<Rightarrow> bool" where
  "is_finite (Integer i) = True"
| "is_finite (Decimal m d) = True"
| "is_finite NaN = False"
| "is_finite Infinity = False"
| "is_finite NegInfinity = False"

subsection \<open>Records\<close>

record TrackInfo =
  "identifier" :: string
  isSeekable :: bool
  author :: string
  length_ms :: number
  isStream :: bool
  position :: number
  title :: string
  uri :: string
  sourceName :: string
  artworkUrl :: "string option"
  isrc :: "string option"


text \<open>\<open>Track\<close> and \<open>LavalinkTrack\<close> are the same interface; \<open>DiscordTrack\<close> is the
  instance whose \<open>info\<close> carries the Discord fields.\<close>

record 'i Track =
  track :: string
  info :: 'i

record PlaylistInfo =
  name :: string
  selectedTrack :: int

text \<open>The values thrown by the code: \<open>Error m\<close> is an instance of the JavaScript class
  \<open>Error\<close> (or of a subclass) with message \<open>m\<close>; \<open>NonError\<close> is any other thrown value.\<close>

datatype thrown = Error string | NonError

text \<open>\<open>Required<EncoderOptions>\<close> and \<open>Required<PlaylistEncoderOptions>\<close>: the options an
  encoder holds once the constructor has filled in the defaults.\<close>

record EncoderOptions =
  includeArtwork :: bool
  includeISRC :: bool
  sourceName_opt :: string
  validate :: bool

record PlaylistEncoderOptions = EncoderOptions +
  maxTracks :: int
  includeMetadata :: bool

text \<open>\<open>EncoderOptions & PlaylistEncoderOptions\<close> as the caller passes them: every option may
  be absent.\<close>

record PartialOptions =
  includeArtwork' :: "bool option"
  includeISRC' :: "bool option"
  sourceName_opt' :: "string option"
  validate' :: "bool option"
  maxTracks' :: "int option"
  includeMetadata' :: "bool option"


section \<open>JSON values and \<open>JSON.stringify\<close>\<close>

text \<open>The members of an object are listed in insertion order.\<close>

datatype json =
    JNull
  | JBool bool
  | JNum number
  | JStr string
  | JArr "json list"
  | JObj "(string \<times> json) list"

definition digit_char :: "nat \<Rightarrow> char" where
  "digit_char d = char_of (48 + d)"

fun string_of_nat :: "nat \<Rightarrow> string" where
  "string_of_nat n =
     (if n < 10 then [digit_char n] else string_of_nat (n div 10) @ [digit_char (n mod 10)])"

declare string_of_nat.simps [simp del]

definition string_of_int :: "int \<Rightarrow> string" where
  "string_of_int i = (if i < 0 then CHR ''-'' # string_of_nat (nat (- i)) else string_of_nat (nat i))"

text \<open>
  \<open>Number::toString\<close> in radix 10.  For a number with the significant digits \<open>s\<close> (\<open>k\<close> of
  them) and the value \<open>s \<times> 10\<^sup>n\<^sup>-\<^sup>k\<close>, ECMAScript writes the digits followed by zeros when
  \<open>k \<le> n \<le> 21\<close>, the digits with a point after the first \<open>n\<close> when \<open>0 < n \<le> 21\<close>, \<open>0.\<close>
  followed by \<open>-n\<close> zeros and the digits when \<open>-6 < n \<le> 0\<close>, and the exponent form
  otherwise.  An integer is written by its digits, as JavaScript does below \<open>10\<^sup>2\<^sup>1\<close>.
\<close>

definition decimal_text :: "string \<Rightarrow> int \<Rightarrow> string" where
  "decimal_text s n =
     (let k = int (length s)
      in if k \<le> n \<and> n \<le> 21 then s @ replicate (nat (n - k)) (CHR ''0'')
         else if 0 < n \<and> n \<le> 21 then take (nat n) s @ CHR ''.'' # drop (nat n) s
         else if - 6 < n \<and> n \<le> 0 then ''0.'' @ replicate (nat (- n)) (CHR ''0'') @ s
         else
           (if k = 1 then s else take 1 s @ CHR ''.'' # drop 1 s)
             @ CHR ''e'' # (if n - 1 < 0 then CHR ''-'' else CHR ''+'') # string_of_nat (nat \<bar>n - 1\<bar>))"

definition Number_toString :: "number \<Rightarrow> string" where
  "Number_toString x =
     (case x of
        Integer i \<Rightarrow> string_of_int i
      | Decimal m d \<Rightarrow>
          (if m < 0 then ''-'' else [])
            @ decimal_text (string_of_nat (nat \<bar>m\<bar>))
                (int (length (string_of_nat (nat \<bar>m\<bar>))) - int d)
      | NaN \<Rightarrow> ''NaN''
      | Infinity \<Rightarrow> ''Infinity''
      | NegInfinity \<Rightarrow> ''-Infinity'')"

definition hex_char :: "nat \<Rightarrow> char" where
  "hex_char d = (if d < 10 then char_of (48 + d) else char_of (87 + d))"

definition backslash :: char where
  "backslash = CHR 0x5C"

definition dquote :: char where
  "dquote = CHR 0x22"

text \<open>The escapes of \<open>QuoteJSONString\<close>.  A string held as well-formed UTF-8 has no lone
  surrogate, so the only code points written as \<open>\uXXXX\<close> are the control characters.\<close>

definition quote_char :: "char \<Rightarrow> string" where
  "quote_char c =
     (if c = CHR 0x08 then [backslash, CHR ''b'']
      else if c = CHR 0x09 then [backslash, CHR ''t'']
      else if c = CHR 0x0A then [backslash, CHR ''n'']
      else if c = CHR 0x0C then [backslash, CHR ''f'']
      else if c = CHR 0x0D then [backslash, CHR ''r'']
      else if c = dquote then [backslash, dquote]
      else if c = backslash then [backslash, backslash]
      else if of_char c < (0x20 :: nat) then
        [backslash, CHR ''u'', CHR ''0'', CHR ''0'',
         hex_char (of_char c div 16), hex_char (of_char c mod 16)]
      else [c])"

definition QuoteJSONString :: "string \<Rightarrow> string" where
  "QuoteJSONString s = dquote # concat (map quote_char s) @ [dquote]"

fun join_comma :: "string list \<Rightarrow> string" where
  "join_comma [] = []"
| "join_comma [x] = x"
| "join_comma (x # y # ys) = x @ CHR '','' # join_comma (y # ys)"

fun JSON_stringify :: "json \<Rightarrow> string" where
  "JSON_stringify JNull = ''null''"
| "JSON_stringify (JBool b) = (if b then ''true'' else ''false'')"
| "JSON_stringify (JNum x) = (if is_finite x then Number_toString x else ''null'')"
| "JSON_stringify (JStr s) = QuoteJSONString s"
| "JSON_stringify (JArr vs) = CHR ''['' # join_comma (map JSON_stringify vs) @ '']''"
| "JSON_stringify (JObj kvs) =
     CHR ''{'' # join_comma (map (\<lambda>(k, v). QuoteJSONString k @ CHR '':'' # JSON_stringify v) kvs) @ ''}''"


section \<open>\<open>TextEncoder\<close> and base64-js \<open>fromByteArray\<close>\<close>

type_synonym bytes = "char list"

text \<open>\<open>new TextEncoder().encode(s)\<close> is the UTF-8 encoding of \<open>s\<close>: the bytes the string is
  held as.\<close>

definition TextEncoder_encode :: "string \<Rightarrow> bytes" where
  "TextEncoder_encode s = s"

definition lookup_code :: string where
  "lookup_code = ''ABCDEFGHIJKLMNOPQRSTUVWXYZabcdefghijklmnopqrstuvwxyz0123456789+/''"

definition lookup :: "nat \<Rightarrow> char" where
  "lookup i = lookup_code ! i"

definition tripletToBase64 :: "nat \<Rightarrow> string" where
  "tripletToBase64 num =
     [lookup (num div 262144 mod 64), lookup (num div 4096 mod 64),
      lookup (num div 64 mod 64), lookup (num mod 64)]"

fun encodeChunk :: "bytes \<Rightarrow> string" where
  "encodeChunk (a # b # c # rest) =
     tripletToBase64 (of_char a * 65536 + of_char b * 256 + of_char c) @ encodeChunk rest"
| "encodeChunk _ = []"

text \<open>base64-js encodes the complete triples in parts of at most 16383 bytes and joins the
  parts; the joined text is the encoding of all complete triples, which is what
  \<open>encodeChunk\<close> on the first \<open>len2\<close> bytes gives.\<close>

definition fromByteArray :: "bytes \<Rightarrow> string" where
  "fromByteArray uint8 =
     (let len = length uint8;
          extraBytes = len mod 3;
          len2 = len - extraBytes;
          parts = encodeChunk (take len2 uint8)
      in if extraBytes = 1 then
           (let tmp = of_char (uint8 ! (len - 1)) :: nat
            in parts @ [lookup (tmp div 4), lookup (tmp * 16 mod 64)] @ ''=='')
         else if extraBytes = 2 then
           (let tmp = of_char (uint8 ! (len - 2)) * 256 + of_char (uint8 ! (len - 1)) :: nat
            in parts @ [lookup (tmp div 1024), lookup (tmp div 16 mod 64), lookup (tmp * 4 mod 64)]
                 @ ''='')
         else parts)"


section \<open>TrackEncoder.ts\<close>

text \<open>The constructor: \<open>options.x ?? default\<close> for each option.\<close>

definition default_of :: "'a option \<Rightarrow> 'a \<Rightarrow> 'a" where
  "default_of x d = (case x of None \<Rightarrow> d | Some v \<Rightarrow> v)"

definition new_TrackEncoder :: "PartialOptions \<Rightarrow> EncoderOptions" where
  "new_TrackEncoder options =
     \<lparr> includeArtwork = default_of (includeArtwork' options) True,
       includeISRC = default_of (includeISRC' options) True,
       sourceName_opt = default_of (sourceName_opt' options) ''unknown'',
       validate = default_of (validate' options) True \<rparr>"

definition no_options :: PartialOptions where
  "no_options =
     \<lparr> includeArtwork' = None, includeISRC' = None, sourceName_opt' = None,
       validate' = None, maxTracks' = None, includeMetadata' = None \<rparr>"

text \<open>An argument of type \<open>TrackInfo\<close> is any object with the fields of \<open>TrackInfo\<close>; it
  may have others (those of \<open>DiscordTrackInfo\<close>, say).  \<open>typeof trackInfo.length\<close> is
  \<open>'number'\<close> for every number, \<open>NaN\<close> and the infinities included.\<close>

definition validateTrackInfo :: "'a TrackInfo_scheme \<Rightarrow> thrown + unit" where
  "validateTrackInfo trackInfo =
     (if identifier trackInfo = [] then Inl (Error ''Track identifier is required'')
      else if title trackInfo = [] then Inl (Error ''Track title is required'')
      else if author trackInfo = [] then Inl (Error ''Track author is required'')
      else if less_zero (length_ms trackInfo) then
        Inl (Error ''Track length must be a non-negative number'')
      else if uri trackInfo = [] then Inl (Error ''Track URI is required'')
      else Inr ())"

text \<open>The object literal \<open>trackData\<close> of \<open>encodeTrack\<close>.  \<open>a || b\<close> and \<open>a && b\<close> on strings
  test for the empty string; spreading \<open>false\<close>, \<open>undefined\<close> or \<open>""\<close> adds no property.\<close>

definition trackData :: "EncoderOptions \<Rightarrow> 'a TrackInfo_scheme \<Rightarrow> json" where
  "trackData options trackInfo =
     JObj ([(''identifier'', JStr (identifier trackInfo)),
            (''isSeekable'', JBool (isSeekable trackInfo)),
            (''author'', JStr (author trackInfo)),
            (''length'', JNum (length_ms trackInfo)),
            (''isStream'', JBool (isStream trackInfo)),
            (''position'', JNum (position trackInfo)),
            (''title'', JStr (title trackInfo)),
            (''uri'', JStr (uri trackInfo)),
            (''sourceName'',
               JStr (if sourceName trackInfo \<noteq> [] then sourceName trackInfo
                     else sourceName_opt options))]
           @ (if includeArtwork options then
                (case artworkUrl trackInfo of
                   None \<Rightarrow> []
                 | Some a \<Rightarrow> if a \<noteq> [] then [(''artworkUrl'', JStr a)] else [])
              else [])
           @ (if includeISRC options then
                (case isrc trackInfo of
                   None \<Rightarrow> []
                 | Some i \<Rightarrow> if i \<noteq> [] then [(''isrc'', JStr i)] else [])
              else []))"

definition encodeTrackData :: "json \<Rightarrow> string" where
  "encodeTrackData data = fromByteArray (TextEncoder_encode (JSON_stringify data))"

definition encodeTrack ::
  "EncoderOptions \<Rightarrow> 'a TrackInfo_scheme \<Rightarrow> thrown + 'a TrackInfo_scheme Track" where
  "encodeTrack options trackInfo =
     (case (if validate options then validateTrackInfo trackInfo else Inr ()) of
        Inl e \<Rightarrow> Inl e
      | Inr _ \<Rightarrow>
          Inr \<lparr> track = encodeTrackData (trackData options trackInfo), info = trackInfo \<rparr>)"






section \<open>base64-js \<open>toByteArray\<close>, \<open>TextDecoder\<close> and \<open>JSON.parse\<close>\<close>

definition byte :: "char \<Rightarrow> nat" where
  "byte c = of_char c"

text \<open>base64-js counts and indexes the UTF-16 code units of the token
  (\<open>b64.length\<close>, \<open>b64.indexOf('=')\<close>, \<open>b64.charCodeAt(i)\<close>).  \<open>code_units\<close> lists them for
  a string held as UTF-8: an ASCII character is itself; a character of two or three bytes is
  one code unit and a character of four bytes is two, each entered as the byte \<open>0x80\<close>,
  which like them is in no table of base64-js.\<close>

fun code_units :: "string \<Rightarrow> string" where
  "code_units [] = []"
| "code_units (b # bs) =
     (if byte b < 0x80 then b # code_units bs
      else if byte b < 0xC0 then code_units bs
      else if byte b < 0xF0 then CHR 0x80 # code_units bs
      else CHR 0x80 # CHR 0x80 # code_units bs)"

text \<open>\<open>revLookup[code]\<close>: the inverse of \<open>lookup\<close>, with \<open>-\<close> and \<open>_\<close> for 62 and 63.
  For any other character the table holds \<open>undefined\<close>, which the shifts and \<open>|\<close> of
  \<open>toByteArray\<close> read as 0: base64-js does not reject characters outside the alphabet.\<close>

definition revLookup :: "char \<Rightarrow> nat" where
  "revLookup c =
     (case map_of (zip lookup_code [0..<64]) c of
        Some i \<Rightarrow> i
      | None \<Rightarrow> if c = CHR ''-'' then 62 else if c = CHR ''_'' then 63 else 0)"

text \<open>\<open>revLookup[b64.charCodeAt(i)]\<close>; past the end \<open>charCodeAt\<close> is \<open>NaN\<close>.\<close>

definition rev_at :: "string \<Rightarrow> nat \<Rightarrow> nat" where
  "rev_at b64 i = (if i < length b64 then revLookup (b64 ! i) else 0)"

definition getLens :: "string \<Rightarrow> thrown + nat \<times> nat" where
  "getLens b64 =
     (let len = length b64
      in if len mod 4 > 0 then Inl (Error ''Invalid string. Length must be a multiple of 4'')
         else
           (let validLen = length (takeWhile (\<lambda>c. c \<noteq> CHR ''='') b64);
                placeHoldersLen = (if validLen = len then 0 else 4 - validLen mod 4)
            in Inr (validLen, placeHoldersLen)))"

text \<open>The main loop \<open>for (i = 0; i < len; i += 4)\<close> of \<open>toByteArray\<close>; it returns the bytes
  written and the final value of \<open>i\<close>.\<close>

function toByteArray_loop :: "string \<Rightarrow> nat \<Rightarrow> nat \<Rightarrow> bytes \<times> nat" where
  "toByteArray_loop b64 len i =
     (if i < len then
        (let tmp = rev_at b64 i * 262144 + rev_at b64 (i + 1) * 4096
                     + rev_at b64 (i + 2) * 64 + rev_at b64 (i + 3);
             (written, final) = toByteArray_loop b64 len (i + 4)
         in ([char_of (tmp div 65536 mod 256), char_of (tmp div 256 mod 256),
              char_of (tmp mod 256)] @ written, final))
      else ([], i))"
  by pat_completeness auto
termination
  by (relation "measure (\<lambda>(b64, len, i). len - i)") auto

declare toByteArray_loop.simps [simp del]

text \<open>\<open>new Uint8Array(n)\<close> is \<open>n\<close> zero bytes and throws a \<open>RangeError\<close> for negative \<open>n\<close>;
  a write past its end is dropped.\<close>

definition Uint8Array_of :: "nat \<Rightarrow> bytes \<Rightarrow> bytes" where
  "Uint8Array_of n written = take n (written @ replicate n (CHR 0x00))"

definition toByteArray :: "string \<Rightarrow> thrown + bytes" where
  "toByteArray b64_string =
     (let b64 = code_units b64_string
      in case getLens b64 of
           Inl e \<Rightarrow> Inl e
         | Inr (validLen, placeHoldersLen) \<Rightarrow>
             (let byteLength = int ((validLen + placeHoldersLen) * 3 div 4) - int placeHoldersLen
              in if byteLength < 0 then Inl (Error ''Invalid typed array length: -1'')
                 else
                   (let len = (if placeHoldersLen > 0 then validLen - 4 else validLen);
                        (written, i) = toByteArray_loop b64 len 0;
                        rest =
                          (if placeHoldersLen = 2 then
                             (let tmp = rev_at b64 i * 4 + rev_at b64 (i + 1) div 16
                              in [char_of (tmp mod 256)])
                           else if placeHoldersLen = 1 then
                             (let tmp = rev_at b64 i * 1024 + rev_at b64 (i + 1) * 16
                                          + rev_at b64 (i + 2) div 4
                              in [char_of (tmp div 256 mod 256), char_of (tmp mod 256)])
                           else [])
                    in Inr (Uint8Array_of (nat byteLength) (written @ rest)))))"

text \<open>The UTF-8 decoder of \<open>TextDecoder\<close> (not fatal): a well-formed sequence is kept, each
  maximal ill-formed part becomes U+FFFD, and one leading byte order mark is dropped.\<close>

definition replacement :: string where
  "replacement = [CHR 0xEF, CHR 0xBF, CHR 0xBD]"

definition is_cont :: "char \<Rightarrow> bool" where
  "is_cont c \<longleftrightarrow> 0x80 \<le> byte c \<and> byte c \<le> 0xBF"

definition second_ok :: "char \<Rightarrow> char \<Rightarrow> bool" where
  "second_ok b c \<longleftrightarrow>
     (if byte b = 0xE0 then 0xA0 else if byte b = 0xF0 then 0x90 else 0x80) \<le> byte c
     \<and> byte c \<le> (if byte b = 0xED then 0x9F else if byte b = 0xF4 then 0x8F else 0xBF)"

fun utf8_decode :: "bytes \<Rightarrow> string" where
  "utf8_decode [] = []"
| "utf8_decode (b # bs) =
     (if byte b < 0x80 then b # utf8_decode bs
      else if 0xC2 \<le> byte b \<and> byte b \<le> 0xDF then
        (case bs of
           [] \<Rightarrow> replacement
         | c1 # r1 \<Rightarrow>
             if is_cont c1 then b # c1 # utf8_decode r1 else replacement @ utf8_decode bs)
      else if 0xE0 \<le> byte b \<and> byte b \<le> 0xEF then
        (case bs of
           [] \<Rightarrow> replacement
         | c1 # r1 \<Rightarrow>
             if second_ok b c1 then
               (case r1 of
                  [] \<Rightarrow> replacement
                | c2 # r2 \<Rightarrow>
                    if is_cont c2 then b # c1 # c2 # utf8_decode r2
                    else replacement @ utf8_decode r1)
             else replacement @ utf8_decode bs)
      else if 0xF0 \<le> byte b \<and> byte b \<le> 0xF4 then
        (case bs of
           [] \<Rightarrow> replacement
         | c1 # r1 \<Rightarrow>
             if second_ok b c1 then
               (case r1 of
                  [] \<Rightarrow> replacement
                | c2 # r2 \<Rightarrow>
                    if is_cont c2 then
                      (case r2 of
                         [] \<Rightarrow> replacement
                       | c3 # r3 \<Rightarrow>
                           if is_cont c3 then b # c1 # c2 # c3 # utf8_decode r3
                           else replacement @ utf8_decode r2)
                    else replacement @ utf8_decode r1)
             else replacement @ utf8_decode bs)
      else replacement @ utf8_decode bs)"

definition TextDecoder_decode :: "bytes \<Rightarrow> string" where
  "TextDecoder_decode bs =
     utf8_decode (if take 3 bs = [CHR 0xEF, CHR 0xBB, CHR 0xBF] then drop 3 bs else bs)"

text \<open>Well-formed UTF-8: the strings that stand for a JavaScript string without lone
  surrogates.\<close>

fun utf8_valid :: "string \<Rightarrow> bool" where
  "utf8_valid [] = True"
| "utf8_valid (b # bs) =
     (if byte b < 0x80 then utf8_valid bs
      else if 0xC2 \<le> byte b \<and> byte b \<le> 0xDF then
        (case bs of c1 # r1 \<Rightarrow> is_cont c1 \<and> utf8_valid r1 | _ \<Rightarrow> False)
      else if 0xE0 \<le> byte b \<and> byte b \<le> 0xEF then
        (case bs of
           c1 # c2 # r2 \<Rightarrow> second_ok b c1 \<and> is_cont c2 \<and> utf8_valid r2
         | _ \<Rightarrow> False)
      else if 0xF0 \<le> byte b \<and> byte b \<le> 0xF4 then
        (case bs of
           c1 # c2 # c3 # r3 \<Rightarrow> second_ok b c1 \<and> is_cont c2 \<and> is_cont c3 \<and> utf8_valid r3
         | _ \<Rightarrow> False)
      else False)"


subsection \<open>\<open>JSON.parse\<close>\<close>

definition is_ws :: "char \<Rightarrow> bool" where
  "is_ws c \<longleftrightarrow> c = CHR '' '' \<or> c = CHR 0x09 \<or> c = CHR 0x0A \<or> c = CHR 0x0D"

definition skip_ws :: "string \<Rightarrow> string" where
  "skip_ws cs = dropWhile is_ws cs"

definition is_digit :: "char \<Rightarrow> bool" where
  "is_digit c \<longleftrightarrow> 48 \<le> byte c \<and> byte c \<le> 57"

definition hex_val :: "char \<Rightarrow> nat option" where
  "hex_val c =
     (if 48 \<le> byte c \<and> byte c \<le> 57 then Some (byte c - 48)
      else if 97 \<le> byte c \<and> byte c \<le> 102 then Some (byte c - 87)
      else if 65 \<le> byte c \<and> byte c \<le> 70 then Some (byte c - 55)
      else None)"

definition hex4 :: "char \<Rightarrow> char \<Rightarrow> char \<Rightarrow> char \<Rightarrow> nat option" where
  "hex4 a b c d =
     (case (hex_val a, hex_val b, hex_val c, hex_val d) of
        (Some w, Some x, Some y, Some z) \<Rightarrow> Some (((w * 16 + x) * 16 + y) * 16 + z)
      | _ \<Rightarrow> None)"

text \<open>The character after a backslash, other than \<open>u\<close>.\<close>

definition simple_escape :: "char \<Rightarrow> char option" where
  "simple_escape e =
     (if e = dquote then Some dquote
      else if e = backslash then Some backslash
      else if e = CHR ''/'' then Some CHR ''/''
      else if e = CHR ''b'' then Some (CHR 0x08)
      else if e = CHR ''f'' then Some (CHR 0x0C)
      else if e = CHR ''n'' then Some (CHR 0x0A)
      else if e = CHR ''r'' then Some (CHR 0x0D)
      else if e = CHR ''t'' then Some (CHR 0x09)
      else None)"

text \<open>The characters of a string literal: \<open>Lit c\<close> is a byte taken as it is (or the
  character of a simple escape), \<open>Esc u\<close> the code unit of a \<open>\uXXXX\<close> escape.\<close>

datatype str_item = Lit char | Esc nat

text \<open>The text after the opening quote, up to and including the closing quote.\<close>

fun parse_string_items :: "string \<Rightarrow> (str_item list \<times> string) option" where
  "parse_string_items [] = None"
| "parse_string_items (c # r) =
     (if c = dquote then Some ([], r)
      else if c = backslash then
        (case r of
           [] \<Rightarrow> None
         | e # r' \<Rightarrow>
             if e = CHR ''u'' then
               (case r' of
                  h1 # h2 # h3 # h4 # r'' \<Rightarrow>
                    (case hex4 h1 h2 h3 h4 of
                       None \<Rightarrow> None
                     | Some u \<Rightarrow>
                         (case parse_string_items r'' of
                            None \<Rightarrow> None
                          | Some (items, rest) \<Rightarrow> Some (Esc u # items, rest)))
                | _ \<Rightarrow> None)
             else
               (case simple_escape e of
                  None \<Rightarrow> None
                | Some ch \<Rightarrow>
                    (case parse_string_items r' of
                       None \<Rightarrow> None
                     | Some (items, rest) \<Rightarrow> Some (Lit ch # items, rest))))
      else if byte c < 0x20 then None
      else
        (case parse_string_items r of
           None \<Rightarrow> None
         | Some (items, rest) \<Rightarrow> Some (Lit c # items, rest)))"

text \<open>UTF-8 of a code point; applied to a lone surrogate it gives the three bytes of the
  generalised encoding.\<close>

definition utf8_encode_cp :: "nat \<Rightarrow> bytes" where
  "utf8_encode_cp cp =
     (if cp < 0x80 then [char_of cp]
      else if cp < 0x800 then [char_of (0xC0 + cp div 64), char_of (0x80 + cp mod 64)]
      else if cp < 0x10000 then
        [char_of (0xE0 + cp div 4096), char_of (0x80 + cp div 64 mod 64),
         char_of (0x80 + cp mod 64)]
      else
        [char_of (0xF0 + cp div 262144), char_of (0x80 + cp div 4096 mod 64),
         char_of (0x80 + cp div 64 mod 64), char_of (0x80 + cp mod 64)])"

fun string_of_items :: "str_item list \<Rightarrow> string" where
  "string_of_items [] = []"
| "string_of_items (Lit c # r) = c # string_of_items r"
| "string_of_items (Esc u # Esc v # r) =
     (if 0xD800 \<le> u \<and> u < 0xDC00 \<and> 0xDC00 \<le> v \<and> v < 0xE000 then
        utf8_encode_cp (0x10000 + (u - 0xD800) * 1024 + (v - 0xDC00)) @ string_of_items r
      else utf8_encode_cp u @ string_of_items (Esc v # r))"
| "string_of_items (Esc u # r) = utf8_encode_cp u @ string_of_items r"

definition parse_string :: "string \<Rightarrow> (string \<times> string) option" where
  "parse_string cs =
     (case parse_string_items cs of
        None \<Rightarrow> None
      | Some (items, rest) \<Rightarrow> Some (string_of_items items, rest))"

definition nat_of_digits :: "string \<Rightarrow> nat" where
  "nat_of_digits ds = foldl (\<lambda>n c. 10 * n + (byte c - 48)) 0 ds"

text \<open>The value of a number literal with digits \<open>ds\<close>, fraction digits \<open>fs\<close> and exponent
  \<open>e\<close>: the integer it denotes, or the decimal fraction with the digits of the literal up
  to its last digit that is not 0.\<close>

definition significant :: "string \<Rightarrow> string" where
  "significant ds = rev (dropWhile (\<lambda>c. c = CHR ''0'') (rev ds))"

definition number_value :: "bool \<Rightarrow> string \<Rightarrow> string \<Rightarrow> int \<Rightarrow> number" where
  "number_value neg ds fs e =
     (let m = int (nat_of_digits (ds @ fs));
          shift = e - int (length fs);
          sign = (if neg then - 1 else 1)
      in if shift \<ge> 0 then Integer (sign * m * 10 ^ nat shift)
         else if 10 ^ nat (- shift) dvd m then Integer (sign * (m div 10 ^ nat (- shift)))
         else
           Decimal (sign * int (nat_of_digits (significant (ds @ fs))))
             (nat (- shift) - (length (ds @ fs) - length (significant (ds @ fs)))))"

text \<open>The optional parts of a number literal: the sign, the fraction (\<open>.\<close> and its
  digits) and the exponent (\<open>e\<close> or \<open>E\<close>, its sign and its digits).\<close>

definition parse_sign :: "string \<Rightarrow> bool \<times> string" where
  "parse_sign cs =
     (case cs of [] \<Rightarrow> (False, cs) | c # r \<Rightarrow> if c = CHR ''-'' then (True, r) else (False, cs))"

definition parse_frac :: "string \<Rightarrow> string option \<times> string" where
  "parse_frac r1 =
     (case r1 of
        [] \<Rightarrow> (None, r1)
      | c # r \<Rightarrow>
          if c = CHR ''.'' then (Some (takeWhile is_digit r), dropWhile is_digit r)
          else (None, r1))"

definition parse_exp :: "string \<Rightarrow> (bool \<times> string) option \<times> string" where
  "parse_exp r2 =
     (case r2 of
        [] \<Rightarrow> (None, r2)
      | c # r \<Rightarrow>
          if c = CHR ''e'' \<or> c = CHR ''E'' then
            (case r of
               [] \<Rightarrow> (Some (False, []), r)
             | s # t \<Rightarrow>
                 if s = CHR ''+'' then (Some (False, takeWhile is_digit t), dropWhile is_digit t)
                 else if s = CHR ''-'' then (Some (True, takeWhile is_digit t), dropWhile is_digit t)
                 else (Some (False, takeWhile is_digit r), dropWhile is_digit r))
          else (None, r2))"

definition parse_number :: "string \<Rightarrow> (json \<times> string) option" where
  "parse_number cs =
     (case parse_sign cs of
        (neg, r0) \<Rightarrow>
          (let ds = takeWhile is_digit r0
           in if ds = [] \<or> (length ds > 1 \<and> hd ds = CHR ''0'') then None
              else
                (case parse_frac (dropWhile is_digit r0) of
                   (fs, r2) \<Rightarrow>
                     if fs = Some [] then None
                     else
                       (case parse_exp r2 of
                          (None, r3) \<Rightarrow>
                            Some (JNum (number_value neg ds
                                          (case fs of None \<Rightarrow> [] | Some f \<Rightarrow> f) 0), r3)
                        | (Some (eneg, es), r3) \<Rightarrow>
                            if es = [] then None
                            else
                              Some (JNum (number_value neg ds
                                            (case fs of None \<Rightarrow> [] | Some f \<Rightarrow> f)
                                            (if eneg then - int (nat_of_digits es)
                                             else int (nat_of_digits es))), r3)))))"

definition parse_literal :: "string \<Rightarrow> (json \<times> string) option" where
  "parse_literal cs =
     (if take 4 cs = ''true'' then Some (JBool True, drop 4 cs)
      else if take 5 cs = ''false'' then Some (JBool False, drop 5 cs)
      else if take 4 cs = ''null'' then Some (JNull, drop 4 cs)
      else None)"

text \<open>
  The grammar of JSON by recursive descent; each function returns the value read and the
  text that follows it.  \<open>parse_elements\<close> reads the elements of an array after \<open>[\<close> or
  \<open>,\<close>, \<open>parse_members\<close> the members of an object after \<open>{\<close> or \<open>,\<close>.  The tests
  \<open>length r < length cs\<close> make the recursion well-founded; \<open>parse_value_shorter\<close> below shows
  that they never fail.  The members of an object are returned in the order of the text
  (a JavaScript object would keep the last of several members with one key).
\<close>

function parse_value :: "string \<Rightarrow> (json \<times> string) option"
  and parse_elements :: "string \<Rightarrow> (json list \<times> string) option"
  and parse_members :: "string \<Rightarrow> ((string \<times> json) list \<times> string) option"
where
  "parse_value cs =
     (case skip_ws cs of
        [] \<Rightarrow> None
      | c # r \<Rightarrow>
          if c = CHR ''['' then
            (case skip_ws r of
               [] \<Rightarrow> None
             | d # r' \<Rightarrow>
                 if d = CHR '']'' then Some (JArr [], r')
                 else
                   (case parse_elements r of
                      None \<Rightarrow> None
                    | Some (vs, rest) \<Rightarrow> Some (JArr vs, rest)))
          else if c = CHR ''{'' then
            (case skip_ws r of
               [] \<Rightarrow> None
             | d # r' \<Rightarrow>
                 if d = CHR ''}'' then Some (JObj [], r')
                 else
                   (case parse_members r of
                      None \<Rightarrow> None
                    | Some (kvs, rest) \<Rightarrow> Some (JObj kvs, rest)))
          else if c = dquote then
            (case parse_string r of
               None \<Rightarrow> None
             | Some (s, rest) \<Rightarrow> Some (JStr s, rest))
          else if c = CHR ''t'' \<or> c = CHR ''f'' \<or> c = CHR ''n'' then parse_literal (c # r)
          else parse_number (c # r))"
| "parse_elements cs =
     (case parse_value cs of
        None \<Rightarrow> None
      | Some (v, r) \<Rightarrow>
          (case skip_ws r of
             [] \<Rightarrow> None
           | d # r' \<Rightarrow>
               if d = CHR '','' then
                 (if length r' < length cs then
                    (case parse_elements r' of
                       None \<Rightarrow> None
                     | Some (vs, rest) \<Rightarrow> Some (v # vs, rest))
                  else None)
               else if d = CHR '']'' then Some ([v], r')
               else None))"
| "parse_members cs =
     (case skip_ws cs of
        [] \<Rightarrow> None
      | c # r \<Rightarrow>
          if c \<noteq> dquote then None
          else
            (case parse_string r of
               None \<Rightarrow> None
             | Some (k, r1) \<Rightarrow>
                 (case skip_ws r1 of
                    [] \<Rightarrow> None
                  | c2 # r2 \<Rightarrow>
                      if c2 \<noteq> CHR '':'' \<or> \<not> length r2 < length cs then None
                      else
                        (case parse_value r2 of
                           None \<Rightarrow> None
                         | Some (v, r3) \<Rightarrow>
                             (case skip_ws r3 of
                                [] \<Rightarrow> None
                              | d # r4 \<Rightarrow>
                                  if d = CHR '','' then
                                    (if length r4 < length cs then
                                       (case parse_members r4 of
                                          None \<Rightarrow> None
                                        | Some (kvs, rest) \<Rightarrow> Some ((k, v) # kvs, rest))
                                     else None)
                                  else if d = CHR ''}'' then Some ([(k, v)], r4)
                                  else None)))))"
  by pat_completeness auto
termination
proof (relation "measure (\<lambda>x. case x of
          Inl cs \<Rightarrow> 2 * length cs
        | Inr (Inl cs) \<Rightarrow> 2 * length cs + 1
        | Inr (Inr cs) \<Rightarrow> 2 * length cs + 1)", goal_cases)
  case 1
  show ?case by simp
next
  case (2 cs c r d r')
  have "length (skip_ws cs) \<le> length cs"
    by (simp add: skip_ws_def length_dropWhile_le)
  with 2 show ?case by simp
next
  case (3 cs c r d r')
  have "length (skip_ws cs) \<le> length cs"
    by (simp add: skip_ws_def length_dropWhile_le)
  with 3 show ?case by simp
qed simp_all

declare parse_value.simps [simp del] parse_elements.simps [simp del] parse_members.simps [simp del]

definition JSON_parse :: "string \<Rightarrow> json option" where
  "JSON_parse text =
     (case parse_value text of
        None \<Rightarrow> None
      | Some (v, r) \<Rightarrow> if skip_ws r = [] then Some v else None)"

text \<open>The message of the \<open>SyntaxError\<close> of \<open>JSON.parse\<close> is chosen by the JavaScript engine;
  this text stands for it.\<close>

definition SyntaxError_message :: string where
  "SyntaxError_message = ''Unexpected token in JSON''"

definition decodeTrackData :: "string \<Rightarrow> thrown + json" where
  "decodeTrackData encoded =
     (case toByteArray encoded of
        Inl e \<Rightarrow> Inl e
      | Inr bytes \<Rightarrow>
          (case JSON_parse (TextDecoder_decode bytes) of
             None \<Rightarrow> Inl (Error SyntaxError_message)
           | Some v \<Rightarrow> Inr v))"

text \<open>\<open>error instanceof Error ? error.message : 'Unknown error'\<close>.\<close>

definition message_of :: "thrown \<Rightarrow> string" where
  "message_of e = (case e of Error m \<Rightarrow> m | NonError \<Rightarrow> ''Unknown error'')"

text \<open>\<open>decoded as TrackInfo\<close> is an unchecked cast: the result is whatever value the text
  denotes.\<close>

definition decodeTrack :: "string \<Rightarrow> thrown + json" where
  "decodeTrack encodedTrack =
     (case decodeTrackData encodedTrack of
        Inr decoded \<Rightarrow> Inr decoded
      | Inl error \<Rightarrow> Inl (Error (''Failed to decode track: '' @ message_of error)))"


section \<open>PlaylistEncoder.ts\<close>

record 'i Playlist =
  info_p :: PlaylistInfo
  pluginInfo :: "(string \<times> json) list"
  tracks :: "'i Track list"

text \<open>A \<open>PlaylistEncoder\<close> holds its own options and a \<open>TrackEncoder\<close>.\<close>

record PlaylistEncoder =
  options :: PlaylistEncoderOptions
  trackEncoder :: EncoderOptions

definition new_PlaylistEncoder :: "PartialOptions \<Rightarrow> PlaylistEncoder" where
  "new_PlaylistEncoder opts =
     (let this_options =
            \<lparr> includeArtwork = default_of (includeArtwork' opts) True,
              includeISRC = default_of (includeISRC' opts) True,
              sourceName_opt = default_of (sourceName_opt' opts) ''unknown'',
              validate = default_of (validate' opts) True,
              maxTracks = default_of (maxTracks' opts) 1000,
              includeMetadata = default_of (includeMetadata' opts) True \<rparr>
      in \<lparr> options = this_options,
           trackEncoder =
             new_TrackEncoder
               \<lparr> includeArtwork' = Some (includeArtwork this_options),
                 includeISRC' = Some (includeISRC this_options),
                 sourceName_opt' = Some (sourceName_opt this_options),
                 validate' = Some (validate this_options),
                 maxTracks' = None, includeMetadata' = None \<rparr> \<rparr>)"

text \<open>What the code writes with \<open>console.warn\<close> is returned as a list of lines, beside the
  result: a function that can warn returns \<open>(lines, result)\<close>.\<close>

definition validatePlaylistInfo :: "PlaylistInfo \<Rightarrow> thrown + unit" where
  "validatePlaylistInfo playlistInfo =
     (if name playlistInfo = [] then Inl (Error ''Playlist name is required'')
      else if selectedTrack playlistInfo < 0 then
        Inl (Error ''Selected track must be a non-negative number'')
      else Inr ())"

definition maxTracks_warning :: "nat \<Rightarrow> int \<Rightarrow> string" where
  "maxTracks_warning n m =
     ''Playlist contains '' @ string_of_nat n @ '' tracks, but maxTracks is set to ''
       @ string_of_int m"

definition validateTracks ::
  "PlaylistEncoder \<Rightarrow> 'i Track list \<Rightarrow> string list \<times> (thrown + unit)" where
  "validateTracks this tracks_a =
     (if tracks_a = [] then ([], Inl (Error ''Playlist must contain at least one track''))
      else if maxTracks (options this) > 0 \<and> int (length tracks_a) > maxTracks (options this) then
        ([maxTracks_warning (length tracks_a) (maxTracks (options this))], Inr ())
      else ([], Inr ()))"

text \<open>\<open>Array.prototype.slice(start, end)\<close> for integer arguments.\<close>

definition slice :: "'a list \<Rightarrow> int \<Rightarrow> int \<Rightarrow> 'a list" where
  "slice xs start end_a =
     (let len = int (length xs);
          k = (if start < 0 then max (len + start) 0 else min start len);
          final = (if end_a < 0 then max (len + end_a) 0 else min end_a len)
      in take (nat (final - k)) (drop (nat k) xs))"

text \<open>\<open>limitedTracks.map(...)\<close>: a track that has a token is returned as it is, any other
  is encoded; the first \<open>encodeTrack\<close> that throws ends the call.\<close>

fun encode_tracks :: "EncoderOptions \<Rightarrow> TrackInfo Track list \<Rightarrow> thrown + TrackInfo Track list" where
  "encode_tracks te [] = Inr []"
| "encode_tracks te (t # ts) =
     (case (if track t \<noteq> [] then Inr t else encodeTrack te (info t)) of
        Inl e \<Rightarrow> Inl e
      | Inr t' \<Rightarrow>
          (case encode_tracks te ts of
             Inl e \<Rightarrow> Inl e
           | Inr ts' \<Rightarrow> Inr (t' # ts')))"

definition encodePlaylist ::
  "PlaylistEncoder \<Rightarrow> PlaylistInfo \<Rightarrow> TrackInfo Track list
     \<Rightarrow> string list \<times> (thrown + TrackInfo Playlist)" where
  "encodePlaylist this playlistInfo tracks_a =
     (let body =
            (let limitedTracks =
                   (if maxTracks (options this) > 0 then slice tracks_a 0 (maxTracks (options this))
                    else tracks_a)
             in case encode_tracks (trackEncoder this) limitedTracks of
                  Inl e \<Rightarrow> Inl e
                | Inr encodedTracks \<Rightarrow>
                    Inr \<lparr> info_p =
                            \<lparr> name = name playlistInfo,
                              selectedTrack =
                                min (selectedTrack playlistInfo) (int (length encodedTracks) - 1) \<rparr>,
                          pluginInfo = [],
                          tracks = encodedTracks \<rparr>)
      in if validate (options this) then
           (case validatePlaylistInfo playlistInfo of
              Inl e \<Rightarrow> ([], Inl e)
            | Inr _ \<Rightarrow>
                (case validateTracks this tracks_a of
                   (lines, Inl e) \<Rightarrow> (lines, Inl e)
                 | (lines, Inr _) \<Rightarrow> (lines, body)))
         else ([], body))"

definition createPlaylist ::
  "PlaylistEncoder \<Rightarrow> string \<Rightarrow> TrackInfo list \<Rightarrow> int
     \<Rightarrow> string list \<times> (thrown + TrackInfo Playlist)" where
  "createPlaylist this name_a trackInfos selectedTrack_a =
     encodePlaylist this \<lparr> name = name_a, selectedTrack = selectedTrack_a \<rparr>
       (map (\<lambda>trackInfo. \<lparr> track = [], info = trackInfo \<rparr>) trackInfos)"

definition mergePlaylists ::
  "PlaylistEncoder \<Rightarrow> TrackInfo Playlist list \<Rightarrow> string option
     \<Rightarrow> string list \<times> (thrown + TrackInfo Playlist)" where
  "mergePlaylists this playlists newName =
     (let allTracks = concat (map tracks playlists);
          totalSelectedTrack =
            (case playlists of [] \<Rightarrow> 0 | playlist # _ \<Rightarrow> selectedTrack (info_p playlist));
          generated = ''Merged Playlist ('' @ string_of_nat (length playlists) @ '' playlists)'';
          name_a = (case newName of None \<Rightarrow> generated | Some n \<Rightarrow> if n \<noteq> [] then n else generated)
      in encodePlaylist this \<lparr> name = name_a, selectedTrack = totalSelectedTrack \<rparr> allTracks)"

text \<open>\<open>${Math.floor(i / chunkSize) + 1}\<close>.  Division by a \<open>chunkSize\<close> of 0 gives \<open>NaN\<close> or
  an infinity, which the template prints by name.\<close>

definition part_number :: "int \<Rightarrow> int \<Rightarrow> string" where
  "part_number i chunkSize =
     (if chunkSize = 0 then (if i = 0 then ''NaN'' else if i > 0 then ''Infinity'' else ''-Infinity'')
      else string_of_int (i div chunkSize + 1))"

text \<open>The loop \<open>for (let i = 0; i < tracks.length; i += chunkSize)\<close> of \<open>splitPlaylist\<close>, with
  the lines written so far and the chunks pushed so far.  For \<open>chunkSize \<le> 0\<close> it need not
  end: the result \<open>None\<close> stands for a call that does not return.\<close>

partial_function (option) splitPlaylist_loop ::
  "PlaylistEncoder \<Rightarrow> TrackInfo Playlist \<Rightarrow> int \<Rightarrow> int \<Rightarrow> string list \<Rightarrow> TrackInfo Playlist list
     \<Rightarrow> (string list \<times> (thrown + TrackInfo Playlist list)) option" where
  "splitPlaylist_loop this playlist chunkSize i lines chunks =
     (if i < int (length (tracks playlist)) then
        (let chunkTracks = slice (tracks playlist) i (i + chunkSize);
             chunkName = name (info_p playlist) @ '' (Part '' @ part_number i chunkSize @ '')'';
             selectedTrack_a = (if i = 0 then selectedTrack (info_p playlist) else 0)
         in case encodePlaylist this \<lparr> name = chunkName, selectedTrack = selectedTrack_a \<rparr>
                   chunkTracks of
              (new_lines, Inl e) \<Rightarrow> Some (lines @ new_lines, Inl e)
            | (new_lines, Inr chunk) \<Rightarrow>
                splitPlaylist_loop this playlist chunkSize (i + chunkSize) (lines @ new_lines)
                  (chunks @ [chunk]))
      else Some (lines, Inr chunks))"

definition splitPlaylist ::
  "PlaylistEncoder \<Rightarrow> TrackInfo Playlist \<Rightarrow> int
     \<Rightarrow> (string list \<times> (thrown + TrackInfo Playlist list)) option" where
  "splitPlaylist this playlist chunkSize = splitPlaylist_loop this playlist chunkSize 0 [] []"

text \<open>\<open>updateOptions\<close>: \<open>{ ...this.options, ...options }\<close>.\<close>

definition TrackEncoder_updateOptions :: "EncoderOptions \<Rightarrow> PartialOptions \<Rightarrow> EncoderOptions" where
  "TrackEncoder_updateOptions this opts =
     \<lparr> includeArtwork = default_of (includeArtwork' opts) (includeArtwork this),
       includeISRC = default_of (includeISRC' opts) (includeISRC this),
       sourceName_opt = default_of (sourceName_opt' opts) (sourceName_opt this),
       validate = default_of (validate' opts) (validate this) \<rparr>"

definition PlaylistEncoder_updateOptions :: "PlaylistEncoder \<Rightarrow> PartialOptions \<Rightarrow> PlaylistEncoder" where
  "PlaylistEncoder_updateOptions this opts =
     (let this_options =
            \<lparr> includeArtwork = default_of (includeArtwork' opts) (includeArtwork (options this)),
              includeISRC = default_of (includeISRC' opts) (includeISRC (options this)),
              sourceName_opt = default_of (sourceName_opt' opts) (sourceName_opt (options this)),
              validate = default_of (validate' opts) (validate (options this)),
              maxTracks = default_of (maxTracks' opts) (maxTracks (options this)),
              includeMetadata = default_of (includeMetadata' opts) (includeMetadata (options this)) \<rparr>
      in \<lparr> options = this_options,
           trackEncoder =
             TrackEncoder_updateOptions (trackEncoder this)
               \<lparr> includeArtwork' = Some (includeArtwork this_options),
                 includeISRC' = Some (includeISRC this_options),
                 sourceName_opt' = Some (sourceName_opt this_options),
                 validate' = Some (validate this_options),
                 maxTracks' = None, includeMetadata' = None \<rparr> \<rparr>)"


section \<open>DiscordTrackEncoder and LavalinkEncoder.ts\<close>

record Requester =
  id_r :: string
  username :: string
  discriminator :: "string option"

record DiscordTrackInfo = TrackInfo +
  requester :: "Requester option"
  guildId :: "string option"
  channelId :: "string option"

record DiscordTrackEncoder =
  trackEncoder_d :: EncoderOptions
  playlistEncoder_d :: PlaylistEncoder

text \<open>The constructor of \<open>DiscordTrackEncoder\<close> takes no argument and builds both encoders
  with no options.\<close>

definition new_DiscordTrackEncoder :: DiscordTrackEncoder where
  "new_DiscordTrackEncoder =
     \<lparr> trackEncoder_d = new_TrackEncoder no_options,
       playlistEncoder_d = new_PlaylistEncoder no_options \<rparr>"

text \<open>\<open>{ ...trackInfo, requester, guildId, channelId }\<close>.\<close>

definition annotate :: "TrackInfo \<Rightarrow> Requester \<Rightarrow> string \<Rightarrow> string \<Rightarrow> DiscordTrackInfo" where
  "annotate trackInfo requester_a guildId_a channelId_a =
     TrackInfo.extend trackInfo
       (DiscordTrackInfo.fields (Some requester_a) (Some guildId_a) (Some channelId_a))"

definition encodeDiscordTrack ::
  "DiscordTrackEncoder \<Rightarrow> TrackInfo \<Rightarrow> Requester \<Rightarrow> string \<Rightarrow> string
     \<Rightarrow> thrown + DiscordTrackInfo Track" where
  "encodeDiscordTrack this trackInfo requester_a guildId_a channelId_a =
     (let discordTrackInfo = annotate trackInfo requester_a guildId_a channelId_a
      in case encodeTrack (trackEncoder_d this) trackInfo of
           Inl e \<Rightarrow> Inl e
         | Inr encodedTrack \<Rightarrow> Inr \<lparr> track = track encodedTrack, info = discordTrackInfo \<rparr>)"

definition encodeDiscordPlaylist ::
  "DiscordTrackEncoder \<Rightarrow> PlaylistInfo \<Rightarrow> TrackInfo Track list \<Rightarrow> Requester \<Rightarrow> string \<Rightarrow> string
     \<Rightarrow> string list \<times> (thrown + DiscordTrackInfo Playlist)" where
  "encodeDiscordPlaylist this playlistInfo tracks_a requester_a guildId_a channelId_a =
     (let discordTracks =
            map (\<lambda>t. \<lparr> track = track t,
                       info = annotate (info t) requester_a guildId_a channelId_a \<rparr>) tracks_a
      in case encodePlaylist (playlistEncoder_d this) playlistInfo tracks_a of
           (lines, Inl e) \<Rightarrow> (lines, Inl e)
         | (lines, Inr encodedPlaylist) \<Rightarrow>
             (lines, Inr \<lparr> info_p = info_p encodedPlaylist,
                           pluginInfo = pluginInfo encodedPlaylist,
                           tracks = discordTracks \<rparr>))"

definition DiscordTrackEncoder_updateOptions ::
  "DiscordTrackEncoder \<Rightarrow> PartialOptions \<Rightarrow> DiscordTrackEncoder" where
  "DiscordTrackEncoder_updateOptions this opts =
     \<lparr> trackEncoder_d = TrackEncoder_updateOptions (trackEncoder_d this) opts,
       playlistEncoder_d = PlaylistEncoder_updateOptions (playlistEncoder_d this) opts \<rparr>"

record LavalinkEncoder =
  trackEncoder_l :: EncoderOptions
  playlistEncoder_l :: PlaylistEncoder
  discordEncoder :: DiscordTrackEncoder

definition new_LavalinkEncoder :: "PartialOptions \<Rightarrow> LavalinkEncoder" where
  "new_LavalinkEncoder opts =
     \<lparr> trackEncoder_l = new_TrackEncoder opts,
       playlistEncoder_l = new_PlaylistEncoder opts,
       discordEncoder = new_DiscordTrackEncoder \<rparr>"

definition LavalinkEncoder_encodeTrack ::
  "LavalinkEncoder \<Rightarrow> 'a TrackInfo_scheme \<Rightarrow> thrown + 'a TrackInfo_scheme Track" where
  "LavalinkEncoder_encodeTrack this trackInfo = encodeTrack (trackEncoder_l this) trackInfo"

definition LavalinkEncoder_encodePlaylist ::
  "LavalinkEncoder \<Rightarrow> PlaylistInfo \<Rightarrow> TrackInfo Track list
     \<Rightarrow> string list \<times> (thrown + TrackInfo Playlist)" where
  "LavalinkEncoder_encodePlaylist this playlistInfo tracks_a =
     encodePlaylist (playlistEncoder_l this) playlistInfo tracks_a"

definition LavalinkEncoder_encodeDiscordTrack ::
  "LavalinkEncoder \<Rightarrow> TrackInfo \<Rightarrow> Requester \<Rightarrow> string \<Rightarrow> string
     \<Rightarrow> thrown + DiscordTrackInfo Track" where
  "LavalinkEncoder_encodeDiscordTrack this trackInfo requester_a guildId_a channelId_a =
     encodeDiscordTrack (discordEncoder this) trackInfo requester_a guildId_a channelId_a"

definition LavalinkEncoder_encodeDiscordPlaylist ::
  "LavalinkEncoder \<Rightarrow> PlaylistInfo \<Rightarrow> TrackInfo Track list \<Rightarrow> Requester \<Rightarrow> string \<Rightarrow> string
     \<Rightarrow> string list \<times> (thrown + DiscordTrackInfo Playlist)" where
  "LavalinkEncoder_encodeDiscordPlaylist this playlistInfo tracks_a requester_a guildId_a channelId_a =
     encodeDiscordPlaylist (discordEncoder this) playlistInfo tracks_a requester_a guildId_a
       channelId_a"

definition LavalinkEncoder_updateOptions :: "LavalinkEncoder \<Rightarrow> PartialOptions \<Rightarrow> LavalinkEncoder" where
  "LavalinkEncoder_updateOptions this opts =
     \<lparr> trackEncoder_l = TrackEncoder_updateOptions (trackEncoder_l this) opts,
       playlistEncoder_l = PlaylistEncoder_updateOptions (playlistEncoder_l this) opts,
       discordEncoder = DiscordTrackEncoder_updateOptions (discordEncoder this) opts \<rparr>"


section \<open>utils/index.ts\<close>

text \<open>\<open>{ success: true, track }\<close> or \<open>{ success: false, error, index }\<close>.\<close>

datatype 'a decode_result = Success 'a | Failure string nat

definition decodeMultipleTracks ::
  "string list \<Rightarrow> (string \<Rightarrow> thrown + 'a) \<Rightarrow> 'a decode_result list" where
  "decodeMultipleTracks encodedTracks decoder =
     map (\<lambda>(encodedTrack, index).
            case decoder encodedTrack of
              Inr decoded \<Rightarrow> Success decoded
            | Inl error \<Rightarrow> Failure (message_of error) index)
         (zip encodedTracks [0..<length encodedTracks])"


section \<open>Definitions used to state the properties\<close>

text \<open>The required fields of a track in the order the specification gives for their
  checks, the test \<open>validateTrackInfo\<close> makes of each (\<open>field_invalid\<close>: the field fails
  its check) and the error it throws for each.\<close>

datatype required_field = F_identifier | F_title | F_author | F_length | F_uri

definition check_order :: "required_field list" where
  "check_order = [F_identifier, F_title, F_author, F_length, F_uri]"

fun field_invalid :: "'a TrackInfo_scheme \<Rightarrow> required_field \<Rightarrow> bool" where
  "field_invalid r F_identifier = (identifier r = [])"
| "field_invalid r F_title = (title r = [])"
| "field_invalid r F_author = (author r = [])"
| "field_invalid r F_length = less_zero (length_ms r)"
| "field_invalid r F_uri = (uri r = [])"

fun field_error :: "required_field \<Rightarrow> thrown" where
  "field_error F_identifier = Error ''Track identifier is required''"
| "field_error F_title = Error ''Track title is required''"
| "field_error F_author = Error ''Track author is required''"
| "field_error F_length = Error ''Track length must be a non-negative number''"
| "field_error F_uri = Error ''Track URI is required''"

text \<open>What the specification calls an invalid required field: an empty \<open>identifier\<close>,
  \<open>title\<close>, \<open>author\<close> or \<open>uri\<close>, and a \<open>length\<close> that is not a non-negative integer.\<close>

fun non_negative_integer :: "number \<Rightarrow> bool" where
  "non_negative_integer (Integer i) = (0 \<le> i)"
| "non_negative_integer (Decimal m d) = False"
| "non_negative_integer NaN = False"
| "non_negative_integer Infinity = False"
| "non_negative_integer NegInfinity = False"

fun spec_invalid :: "'a TrackInfo_scheme \<Rightarrow> required_field \<Rightarrow> bool" where
  "spec_invalid r F_identifier = (identifier r = [])"
| "spec_invalid r F_title = (title r = [])"
| "spec_invalid r F_author = (author r = [])"
| "spec_invalid r F_length = (\<not> non_negative_integer (length_ms r))"
| "spec_invalid r F_uri = (uri r = [])"

text \<open>The names of the fields that \<open>trackData\<close> can hold, and the members of an object.\<close>

definition transcodable_fields :: "string list" where
  "transcodable_fields =
     [''identifier'', ''isSeekable'', ''author'', ''length'', ''isStream'', ''position'',
      ''title'', ''uri'', ''sourceName'', ''artworkUrl'', ''isrc'']"

fun members :: "json \<Rightarrow> (string \<times> json) list" where
  "members (JObj kvs) = kvs"
| "members _ = []"


text \<open>The cap of \<open>encodePlaylist\<close> on a list of tracks.\<close>

definition limited :: "PlaylistEncoder \<Rightarrow> 'a list \<Rightarrow> 'a list" where
  "limited this xs = (if maxTracks (options this) > 0 then take (nat (maxTracks (options this))) xs else xs)"

text \<open>The track \<open>encodePlaylist\<close> returns for a track: the track itself when it has a
  token, the encoding of its record otherwise.  \<open>encodable\<close> is the condition for that not
  to throw: the track has a token, or its record passes the validation of the track
  encoder.\<close>

definition encoded :: "EncoderOptions \<Rightarrow> TrackInfo Track \<Rightarrow> TrackInfo Track" where
  "encoded te t =
     (if track t \<noteq> [] then t
      else \<lparr> track = encodeTrackData (trackData te (info t)), info = info t \<rparr>)"

definition encodable :: "EncoderOptions \<Rightarrow> TrackInfo Track \<Rightarrow> bool" where
  "encodable te t \<longleftrightarrow> track t \<noteq> [] \<or> \<not> validate te \<or> validateTrackInfo (info t) = Inr ()"

text \<open>The chunk with index \<open>k\<close> that \<open>splitPlaylist\<close> is to build from runs of \<open>c\<close> tracks,
  and the condition for \<open>encodePlaylist\<close> to return it: with validation enabled the
  \<open>selectedTrack\<close> given to the first chunk is not negative, and every track kept can be
  encoded.\<close>

definition expected_chunk :: "PlaylistEncoder \<Rightarrow> TrackInfo Playlist \<Rightarrow> nat \<Rightarrow> nat \<Rightarrow> TrackInfo Playlist" where
  "expected_chunk this p c k =
     \<lparr> info_p =
         \<lparr> name = name (info_p p) @ '' (Part '' @ string_of_int (int k + 1) @ '')'',
           selectedTrack =
             (if k = 0 then
                min (selectedTrack (info_p p)) (int (length (limited this (take c (tracks p)))) - 1)
              else 0) \<rparr>,
       pluginInfo = [],
       tracks = map (encoded (trackEncoder this)) (limited this (take c (drop (k * c) (tracks p)))) \<rparr>"

definition chunk_accepted :: "PlaylistEncoder \<Rightarrow> TrackInfo Playlist \<Rightarrow> nat \<Rightarrow> nat \<Rightarrow> bool" where
  "chunk_accepted this p c k \<longleftrightarrow>
     (validate (options this) \<and> k = 0 \<longrightarrow> 0 \<le> selectedTrack (info_p p))
     \<and> list_all (encodable (trackEncoder this)) (limited this (take c (drop (k * c) (tracks p))))"

text \<open>Examples.\<close>

definition example_info :: TrackInfo where
  "example_info =
     \<lparr> identifier = ''id'', isSeekable = True, author = ''au'', length_ms = Integer 1000,
       isStream = False, position = Integer 0, title = ''ti'', uri = ''u'', sourceName = ''src'', artworkUrl = None,
       isrc = None \<rparr>"

definition example_track :: "string \<Rightarrow> TrackInfo Track" where
  "example_track token = \<lparr> track = token, info = example_info \<rparr>"

definition example_playlist :: "int \<Rightarrow> TrackInfo Playlist" where
  "example_playlist sel =
     \<lparr> info_p = \<lparr> name = ''mix'', selectedTrack = sel \<rparr>, pluginInfo = [],
       tracks = [example_track ''a'', example_track ''b'', example_track ''c''] \<rparr>"

text \<open>A playlist whose first track has no token yet, as \<open>createPlaylist\<close> passes them to
  \<open>encodePlaylist\<close>.\<close>

definition untokened_playlist :: "TrackInfo Playlist" where
  "untokened_playlist =
     \<lparr> info_p = \<lparr> name = ''mix'', selectedTrack = 0 \<rparr>, pluginInfo = [],
       tracks = [example_track [], example_track ''b'', example_track ''c''] \<rparr>"

definition example_requester :: Requester where
  "example_requester = \<lparr> id_r = ''123'', username = ''MusicLover'', discriminator = Some ''1234'' \<rparr>"

definition example_decoder :: "string \<Rightarrow> thrown + nat" where
  "example_decoder s = (if s = ''bad'' then Inl (Error ''malformed'') else Inr (length s))"


section \<open>Tokens of the example records\<close>

lemma digit_char_simps:
  "digit_char 0 = CHR ''0''" "digit_char 1 = CHR ''1''" "digit_char (Suc 0) = CHR ''1''"
  "digit_char (Suc (Suc 0)) = CHR ''2''" "digit_char (Suc (Suc (Suc 0))) = CHR ''3''"
  "digit_char 2 = CHR ''2''" "digit_char 3 = CHR ''3''" "digit_char 4 = CHR ''4''"
  "digit_char 5 = CHR ''5''" "digit_char 6 = CHR ''6''" "digit_char 7 = CHR ''7''"
  "digit_char 8 = CHR ''8''" "digit_char 9 = CHR ''9''"
  by code_simp+

lemma stringify_example:
  "JSON_stringify (trackData (new_TrackEncoder no_options) example_info)
   = ''{\"identifier\":\"id\",\"isSeekable\":true,\"author\":\"au\",\"length\":1000,\"isStream\":false,\"position\":0,\"title\":\"ti\",\"uri\":\"u\",\"sourceName\":\"src\"}''"
  by (simp add: trackData_def example_info_def new_TrackEncoder_def no_options_def default_of_def
      QuoteJSONString_def quote_char_def dquote_def backslash_def Number_toString_def
      string_of_int_def string_of_nat.simps digit_char_simps)

lemma token_example:
  "encodeTrackData (trackData (new_TrackEncoder no_options) example_info)
   = ''eyJpZGVudGlmaWVyIjoiaWQiLCJpc1NlZWthYmxlIjp0cnVlLCJhdXRob3IiOiJhdSIsImxlbmd0aCI6MTAwMCwiaXNTdHJlYW0iOmZhbHNlLCJwb3NpdGlvbiI6MCwidGl0bGUiOiJ0aSIsInVyaSI6InUiLCJzb3VyY2VOYW1lIjoic3JjIn0=''"
  unfolding encodeTrackData_def stringify_example TextEncoder_encode_def
  by (simp add: fromByteArray_def tripletToBase64_def lookup_def lookup_code_def Let_def)

lemma encodeTrack_example:
  "encodeTrack (new_TrackEncoder no_options) example_info
     = Inr \<lparr> track = ''eyJpZGVudGlmaWVyIjoiaWQiLCJpc1NlZWthYmxlIjp0cnVlLCJhdXRob3IiOiJhdSIsImxlbmd0aCI6MTAwMCwiaXNTdHJlYW0iOmZhbHNlLCJwb3NpdGlvbiI6MCwidGl0bGUiOiJ0aSIsInVyaSI6InUiLCJzb3VyY2VOYW1lIjoic3JjIn0='',
             info = example_info \<rparr>"
proof -
  have "validateTrackInfo example_info = Inr ()"
    by (simp add: validateTrackInfo_def example_info_def)
  then show ?thesis unfolding encodeTrack_def token_example by simp
qed


lemma stringify_fraction:
  "JSON_stringify (trackData (new_TrackEncoder no_options) (example_info \<lparr> length_ms := Decimal 15 1 \<rparr>))
   = ''{\"identifier\":\"id\",\"isSeekable\":true,\"author\":\"au\",\"length\":1.5,\"isStream\":false,\"position\":0,\"title\":\"ti\",\"uri\":\"u\",\"sourceName\":\"src\"}''"
  "JSON_stringify (trackData (new_TrackEncoder no_options) (example_info \<lparr> length_ms := NaN \<rparr>))
   = ''{\"identifier\":\"id\",\"isSeekable\":true,\"author\":\"au\",\"length\":null,\"isStream\":false,\"position\":0,\"title\":\"ti\",\"uri\":\"u\",\"sourceName\":\"src\"}''"
  by (simp_all add: trackData_def example_info_def new_TrackEncoder_def no_options_def default_of_def
      QuoteJSONString_def quote_char_def dquote_def backslash_def Number_toString_def decimal_text_def
      string_of_int_def string_of_nat.simps digit_char_simps)

lemma token_fraction:
  "encodeTrackData (trackData (new_TrackEncoder no_options) (example_info \<lparr> length_ms := Decimal 15 1 \<rparr>))
   = ''eyJpZGVudGlmaWVyIjoiaWQiLCJpc1NlZWthYmxlIjp0cnVlLCJhdXRob3IiOiJhdSIsImxlbmd0aCI6MS41LCJpc1N0cmVhbSI6ZmFsc2UsInBvc2l0aW9uIjowLCJ0aXRsZSI6InRpIiwidXJpIjoidSIsInNvdXJjZU5hbWUiOiJzcmMifQ==''"
  "encodeTrackData (trackData (new_TrackEncoder no_options) (example_info \<lparr> length_ms := NaN \<rparr>))
   = ''eyJpZGVudGlmaWVyIjoiaWQiLCJpc1NlZWthYmxlIjp0cnVlLCJhdXRob3IiOiJhdSIsImxlbmd0aCI6bnVsbCwiaXNTdHJlYW0iOmZhbHNlLCJwb3NpdGlvbiI6MCwidGl0bGUiOiJ0aSIsInVyaSI6InUiLCJzb3VyY2VOYW1lIjoic3JjIn0=''"
  unfolding encodeTrackData_def stringify_fraction TextEncoder_encode_def
  by (simp_all add: fromByteArray_def tripletToBase64_def lookup_def lookup_code_def Let_def)



section \<open>Validation order of \<open>encodeTrack\<close>\<close>

lemma validateTrackInfo_find:
  "validateTrackInfo r = (case find (field_invalid r) check_order of None \<Rightarrow> Inr () | Some f \<Rightarrow> Inl (field_error f))"
  by (simp add: validateTrackInfo_def check_order_def)

lemma field_invalid_spec: "field_invalid r g \<Longrightarrow> spec_invalid r g"
  by (cases g; cases "length_ms r") simp_all


text \<open>
  Claim C8 as the code has it.  With validation enabled, a record that fails a check of
  \<open>validateTrackInfo\<close> (an empty identifier, title, author or uri, or a length below 0)
  makes \<open>encodeTrack\<close> throw the error of the first failing field in the order
  identifier, title, author, length, uri, and of no other field (the errors of different
  fields differ); when the identifier is empty that field is the identifier, whatever the
  title.  A record that fails no check is encoded.  A field that fails its check is invalid
  in the sense of the specification.
\<close>

theorem validation_ordering:
  assumes "validate opts"
  shows "(\<forall>g. field_invalid r g \<longrightarrow>
            (\<exists>f. find (field_invalid r) check_order = Some f
               \<and> encodeTrack opts r = Inl (field_error f)
               \<and> (\<forall>f'. f' \<noteq> f \<longrightarrow> field_error f' \<noteq> field_error f)
               \<and> (identifier r = [] \<longrightarrow> f = F_identifier)))
       \<and> ((\<forall>g. \<not> field_invalid r g)
            \<longrightarrow> encodeTrack opts r
                  = Inr \<lparr> track = encodeTrackData (trackData opts r), info = r \<rparr>)
       \<and> (\<forall>g. field_invalid r g \<longrightarrow> spec_invalid r g)"
proof (intro conjI allI impI)
  fix g assume g: "field_invalid r g"
  have "g \<in> set check_order"
    by (cases g) (simp_all add: check_order_def)
  with g obtain f where f: "find (field_invalid r) check_order = Some f"
    by (cases "find (field_invalid r) check_order") (auto simp: find_None_iff)
  have inj: "\<forall>f'. f' \<noteq> f \<longrightarrow> field_error f' \<noteq> field_error f"
  proof (intro allI impI)
    fix f' assume "f' \<noteq> f" then show "field_error f' \<noteq> field_error f"
    by (cases f; cases f') simp_all
  qed
  have "identifier r = [] \<longrightarrow> f = F_identifier"
    using f by (auto simp: check_order_def)
  with f inj assms
  show "\<exists>f. find (field_invalid r) check_order = Some f
               \<and> encodeTrack opts r = Inl (field_error f)
               \<and> (\<forall>f'. f' \<noteq> f \<longrightarrow> field_error f' \<noteq> field_error f)
               \<and> (identifier r = [] \<longrightarrow> f = F_identifier)"
    by (simp add: encodeTrack_def validateTrackInfo_find)
next
  assume "\<forall>g. \<not> field_invalid r g"
  then have "find (field_invalid r) check_order = None" by (simp add: find_None_iff)
  then show "encodeTrack opts r = Inr \<lparr> track = encodeTrackData (trackData opts r), info = r \<rparr>"
    by (simp add: encodeTrack_def validateTrackInfo_find)
next
  fix g assume "field_invalid r g" then show "spec_invalid r g" by (rule field_invalid_spec)
qed


theorem validation_ordering_witness:
  "validate (new_TrackEncoder no_options) \<and> field_invalid (example_info \<lparr> identifier := [], title := [] \<rparr>) F_title
   \<and> encodeTrack (new_TrackEncoder no_options) (example_info \<lparr> identifier := [], title := [] \<rparr>) = Inl (Error ''Track identifier is required'')
   \<and> encodeTrack (new_TrackEncoder no_options) example_info
       = Inr \<lparr> track = ''eyJpZGVudGlmaWVyIjoiaWQiLCJpc1NlZWthYmxlIjp0cnVlLCJhdXRob3IiOiJhdSIsImxlbmd0aCI6MTAwMCwiaXNTdHJlYW0iOmZhbHNlLCJwb3NpdGlvbiI6MCwidGl0bGUiOiJ0aSIsInVyaSI6InUiLCJzb3VyY2VOYW1lIjoic3JjIn0='',
               info = example_info \<rparr>"
proof -
  have v: "validate (new_TrackEncoder no_options)"
    by (simp add: new_TrackEncoder_def no_options_def default_of_def)
  have i: "field_invalid (example_info \<lparr> identifier := [], title := [] \<rparr>) F_title" by (simp add: example_info_def)
  from validation_ordering [OF v, of "example_info \<lparr> identifier := [], title := [] \<rparr>"] i obtain f where
    "encodeTrack (new_TrackEncoder no_options) (example_info \<lparr> identifier := [], title := [] \<rparr>) = Inl (field_error f)"
    "identifier (example_info \<lparr> identifier := [], title := [] \<rparr>) = [] \<longrightarrow> f = F_identifier" by blast
  then have 1: "encodeTrack (new_TrackEncoder no_options) (example_info \<lparr> identifier := [], title := [] \<rparr>) = Inl (Error ''Track identifier is required'')"
    by (simp add: example_info_def)
  have n: "\<forall>g. \<not> field_invalid example_info g"
  proof
    fix g show "\<not> field_invalid example_info g" by (cases g) (simp_all add: example_info_def)
  qed
  from validation_ordering [OF v, of example_info] n
  have "encodeTrack (new_TrackEncoder no_options) example_info
       = Inr \<lparr> track = encodeTrackData (trackData (new_TrackEncoder no_options) example_info), info = example_info \<rparr>"
    by blast
  with 1 v i show ?thesis by (simp only: token_example simp_thms)
qed


text \<open>
  Claim C8 as stated fails: the specification counts a length that is not a non-negative
  integer as invalid, and the check of the length is \<open>length < 0\<close> only.  A record whose
  length is 1.5, or \<open>NaN\<close>, and whose other fields are valid is encoded with validation
  enabled; no error is thrown.
\<close>

theorem validation_counterexample:
  "validate (new_TrackEncoder no_options)
   \<and> spec_invalid (example_info \<lparr> length_ms := Decimal 15 1 \<rparr>) F_length
   \<and> encodeTrack (new_TrackEncoder no_options) (example_info \<lparr> length_ms := Decimal 15 1 \<rparr>)
       = Inr \<lparr> track = ''eyJpZGVudGlmaWVyIjoiaWQiLCJpc1NlZWthYmxlIjp0cnVlLCJhdXRob3IiOiJhdSIsImxlbmd0aCI6MS41LCJpc1N0cmVhbSI6ZmFsc2UsInBvc2l0aW9uIjowLCJ0aXRsZSI6InRpIiwidXJpIjoidSIsInNvdXJjZU5hbWUiOiJzcmMifQ=='',
               info = example_info \<lparr> length_ms := Decimal 15 1 \<rparr> \<rparr>
   \<and> spec_invalid (example_info \<lparr> length_ms := NaN \<rparr>) F_length
   \<and> encodeTrack (new_TrackEncoder no_options) (example_info \<lparr> length_ms := NaN \<rparr>)
       = Inr \<lparr> track = ''eyJpZGVudGlmaWVyIjoiaWQiLCJpc1NlZWthYmxlIjp0cnVlLCJhdXRob3IiOiJhdSIsImxlbmd0aCI6bnVsbCwiaXNTdHJlYW0iOmZhbHNlLCJwb3NpdGlvbiI6MCwidGl0bGUiOiJ0aSIsInVyaSI6InUiLCJzb3VyY2VOYW1lIjoic3JjIn0='',
               info = example_info \<lparr> length_ms := NaN \<rparr> \<rparr>"
proof -
  have v: "validate (new_TrackEncoder no_options)"
    by (simp add: new_TrackEncoder_def no_options_def default_of_def)
  have a: "validateTrackInfo (example_info \<lparr> length_ms := Decimal 15 1 \<rparr>) = Inr ()"
    "validateTrackInfo (example_info \<lparr> length_ms := NaN \<rparr>) = Inr ()"
    by (simp_all add: validateTrackInfo_def example_info_def)
  have s: "spec_invalid (example_info \<lparr> length_ms := Decimal 15 1 \<rparr>) F_length"
    "spec_invalid (example_info \<lparr> length_ms := NaN \<rparr>) F_length"
    by simp_all
  show ?thesis
    unfolding encodeTrack_def a token_fraction using v s by simp
qed


section \<open>\<open>createTrack\<close>\<close>




section \<open>\<open>decodeMultipleTracks\<close>\<close>

text \<open>
  Claim C9.  \<open>decodeMultipleTracks\<close> returns one result per token, in order: a failure
  with the message and the index of the token where the decoder throws, a success with the
  decoded value elsewhere; the result at one position depends on the token at that position
  only.
\<close>

theorem decodeMultipleTracks_isolation:
  "length (decodeMultipleTracks xs decoder) = length xs
   \<and> (\<forall>k < length xs.
        decodeMultipleTracks xs decoder ! k =
          (case decoder (xs ! k) of
             Inr decoded \<Rightarrow> Success decoded
           | Inl e \<Rightarrow> Failure (message_of e) k)
        \<and> (\<forall>m. decoder (xs ! k) = Inl (Error m) \<longrightarrow> decodeMultipleTracks xs decoder ! k = Failure m k)
        \<and> (\<forall>ys. length ys = length xs \<and> ys ! k = xs ! k
              \<longrightarrow> decodeMultipleTracks ys decoder ! k = decodeMultipleTracks xs decoder ! k))"
  by (auto simp: decodeMultipleTracks_def message_of_def split: sum.splits)

theorem decodeMultipleTracks_isolation_witness:
  "length (decodeMultipleTracks [''ab'', ''bad'', ''abcd''] example_decoder) = 3
   \<and> decodeMultipleTracks [''ab'', ''bad'', ''abcd''] example_decoder ! 0 = Success 2
   \<and> decodeMultipleTracks [''ab'', ''bad'', ''abcd''] example_decoder ! 1 = Failure ''malformed'' 1
   \<and> decodeMultipleTracks [''ab'', ''bad'', ''abcd''] example_decoder ! 2 = Success 4"
proof -
  let ?xs = "[''ab'', ''bad'', ''abcd'']"
  note t = decodeMultipleTracks_isolation [of ?xs example_decoder]
  from t have k: "k < length ?xs \<Longrightarrow>
      decodeMultipleTracks ?xs example_decoder ! k =
        (case example_decoder (?xs ! k) of Inr decoded \<Rightarrow> Success decoded
         | Inl e \<Rightarrow> Failure (message_of e) k)" for k
    by blast
  from t have "length (decodeMultipleTracks ?xs example_decoder) = 3" by simp
  with k [of 0] k [of 1] k [of 2] show ?thesis
    by (simp add: example_decoder_def message_of_def)
qed


section \<open>Annotation with requester and guild\<close>

lemma new_defaults:
  "new_TrackEncoder no_options =
     \<lparr> includeArtwork = True, includeISRC = True, sourceName_opt = ''unknown'', validate = True \<rparr>"
  by (simp add: new_TrackEncoder_def no_options_def default_of_def)

lemma trackData_annotate: "trackData opts (annotate r req g c) = trackData opts r"
  by (simp add: trackData_def annotate_def TrackInfo.extend_def)

lemma validateTrackInfo_annotate: "validateTrackInfo (annotate r req g c) = validateTrackInfo r"
  by (simp add: validateTrackInfo_def annotate_def TrackInfo.extend_def)

lemma trackData_keys: "set (map fst (members (trackData opts r))) \<subseteq> set transcodable_fields"
proof -
  define A where "A = (if includeArtwork opts then
                (case artworkUrl r of
                   None \<Rightarrow> []
                 | Some a \<Rightarrow> if a \<noteq> [] then [(''artworkUrl'', JStr a)] else [])
              else [])"
  define I where "I = (if includeISRC opts then
                (case isrc r of
                   None \<Rightarrow> []
                 | Some i \<Rightarrow> if i \<noteq> [] then [(''isrc'', JStr i)] else [])
              else [])"
  have a: "set (map fst A) \<subseteq> {''artworkUrl''}"
    by (cases "includeArtwork opts"; cases "artworkUrl r") (auto simp: A_def)
  have i: "set (map fst I) \<subseteq> {''isrc''}"
    by (cases "includeISRC opts"; cases "isrc r") (auto simp: I_def)
  have m: "map fst (members (trackData opts r))
             = [''identifier'', ''isSeekable'', ''author'', ''length'', ''isStream'', ''position'',
                ''title'', ''uri'', ''sourceName''] @ map fst A @ map fst I"
    by (simp add: trackData_def A_def I_def)
  have b: "set [''identifier'', ''isSeekable'', ''author'', ''length'', ''isStream'', ''position'',
                ''title'', ''uri'', ''sourceName''] \<subseteq> set transcodable_fields"
    by (simp add: transcodable_fields_def)
  have a': "set (map fst A) \<subseteq> set transcodable_fields"
    using a by (rule order_trans) (simp add: transcodable_fields_def)
  have i': "set (map fst I) \<subseteq> set transcodable_fields"
    using i by (rule order_trans) (simp add: transcodable_fields_def)
  show ?thesis unfolding m set_append by (intro Un_least b a' i')
qed


text \<open>
  Claim C4.  The token of \<open>encodeDiscordTrack\<close> is the token \<open>encodeTrack\<close> gives for the
  bare record under the encoder's own \<open>TrackEncoder\<close> (and it throws exactly when that
  does); the record returned is the bare record with the three fields attached, and its
  token is the encoding of \<open>trackData\<close> of the bare record.  Encoding the annotated record
  again gives the same token: \<open>trackData\<close> of a record that carries requester, guild and
  channel is \<open>trackData\<close> of the bare record, its members are among the transcodable
  fields, and \<open>requester\<close>, \<open>guildId\<close> and \<open>channelId\<close> are none of these.
\<close>

theorem annotation_token_invariant:
  "map_sum id track (encodeDiscordTrack this r req g c)
     = map_sum id track (encodeTrack (trackEncoder_d this) r)
   \<and> map_sum id (\<lambda>t. TrackInfo.truncate (info t)) (encodeDiscordTrack this r req g c)
       = map_sum id info (encodeTrack (trackEncoder_d this) r)
   \<and> (\<forall>t. encodeDiscordTrack this r req g c = Inr t \<longrightarrow>
          info t = annotate r req g c
        \<and> track t = encodeTrackData (trackData (trackEncoder_d this) r)
        \<and> encodeTrack (trackEncoder_d this) (info t) = Inr \<lparr> track = track t, info = info t \<rparr>)
   \<and> map_sum id track (encodeTrack opts (annotate r req g c)) = map_sum id track (encodeTrack opts r)
   \<and> trackData opts (annotate r req g c) = trackData opts r
   \<and> set (map fst (members (trackData opts (annotate r req g c)))) \<subseteq> set transcodable_fields
   \<and> ''requester'' \<notin> set transcodable_fields
   \<and> ''guildId'' \<notin> set transcodable_fields
   \<and> ''channelId'' \<notin> set transcodable_fields"
proof (intro conjI allI impI)
  show "map_sum id track (encodeDiscordTrack this r req g c)
     = map_sum id track (encodeTrack (trackEncoder_d this) r)"
    by (simp add: encodeDiscordTrack_def Let_def split: sum.splits)
  show "map_sum id (\<lambda>t. TrackInfo.truncate (info t)) (encodeDiscordTrack this r req g c)
       = map_sum id info (encodeTrack (trackEncoder_d this) r)"
    by (auto simp: encodeDiscordTrack_def annotate_def encodeTrack_def TrackInfo.truncate_def
          TrackInfo.extend_def split: sum.splits)
  show "map_sum id track (encodeTrack opts (annotate r req g c)) = map_sum id track (encodeTrack opts r)"
    by (simp add: encodeTrack_def trackData_annotate validateTrackInfo_annotate split: sum.splits)
  show "trackData opts (annotate r req g c) = trackData opts r"
    by (rule trackData_annotate)
  show "set (map fst (members (trackData opts (annotate r req g c)))) \<subseteq> set transcodable_fields"
    by (rule trackData_keys)
  show "''requester'' \<notin> set transcodable_fields" "''guildId'' \<notin> set transcodable_fields"
    "''channelId'' \<notin> set transcodable_fields"
    by (simp_all add: transcodable_fields_def)
next
  fix t assume e: "encodeDiscordTrack this r req g c = Inr t"
  then have v: "(if validate (trackEncoder_d this) then validateTrackInfo r else Inr ()) = Inr ()"
    and t: "t = \<lparr> track = encodeTrackData (trackData (trackEncoder_d this) r),
                   info = annotate r req g c \<rparr>"
    by (auto simp: encodeDiscordTrack_def encodeTrack_def Let_def split: sum.splits if_splits)
  show "info t = annotate r req g c" by (simp add: t)
  show "track t = encodeTrackData (trackData (trackEncoder_d this) r)" by (simp add: t)
  show "encodeTrack (trackEncoder_d this) (info t) = Inr \<lparr> track = track t, info = info t \<rparr>"
  proof (cases "validate (trackEncoder_d this)")
    case True
    with v have "validateTrackInfo r = Inr ()" by simp
    then show ?thesis
      by (simp add: t encodeTrack_def True validateTrackInfo_annotate trackData_annotate)
  next
    case False
    then show ?thesis by (simp add: t encodeTrack_def trackData_annotate)
  qed
qed


theorem annotation_token_invariant_witness:
  "map_sum id track
     (encodeDiscordTrack new_DiscordTrackEncoder example_info example_requester ''g'' ''c'')
   = Inr ''eyJpZGVudGlmaWVyIjoiaWQiLCJpc1NlZWthYmxlIjp0cnVlLCJhdXRob3IiOiJhdSIsImxlbmd0aCI6MTAwMCwiaXNTdHJlYW0iOmZhbHNlLCJwb3NpdGlvbiI6MCwidGl0bGUiOiJ0aSIsInVyaSI6InUiLCJzb3VyY2VOYW1lIjoic3JjIn0=''
   \<and> map_sum id track
       (encodeTrack (new_TrackEncoder no_options) (annotate example_info example_requester ''g'' ''c''))
     = Inr ''eyJpZGVudGlmaWVyIjoiaWQiLCJpc1NlZWthYmxlIjp0cnVlLCJhdXRob3IiOiJhdSIsImxlbmd0aCI6MTAwMCwiaXNTdHJlYW0iOmZhbHNlLCJwb3NpdGlvbiI6MCwidGl0bGUiOiJ0aSIsInVyaSI6InUiLCJzb3VyY2VOYW1lIjoic3JjIn0=''
   \<and> map_sum id track
       (encodeDiscordTrack new_DiscordTrackEncoder (example_info \<lparr> title := [] \<rparr>) example_requester ''g'' ''c'')
     = Inl (Error ''Track title is required'')"
proof -
  have d: "trackEncoder_d new_DiscordTrackEncoder = new_TrackEncoder no_options"
    by (simp add: new_DiscordTrackEncoder_def)
  have e: "encodeTrack (new_TrackEncoder no_options) (example_info \<lparr> title := [] \<rparr>)
             = Inl (Error ''Track title is required'')"
    by (simp add: new_defaults encodeTrack_def validateTrackInfo_def example_info_def)
  note a = annotation_token_invariant
    [of new_DiscordTrackEncoder example_info example_requester "''g''" "''c''" "new_TrackEncoder no_options"]
  note b = annotation_token_invariant
    [of new_DiscordTrackEncoder "example_info \<lparr> title := [] \<rparr>" example_requester "''g''" "''c''"]
  from a have 1: "map_sum id track (encodeDiscordTrack new_DiscordTrackEncoder example_info example_requester ''g'' ''c'')
     = map_sum id track (encodeTrack (new_TrackEncoder no_options) example_info)"
    unfolding d by (rule conjunct1)
  from a have 2: "map_sum id track
       (encodeTrack (new_TrackEncoder no_options) (annotate example_info example_requester ''g'' ''c''))
     = map_sum id track (encodeTrack (new_TrackEncoder no_options) example_info)"
    by blast
  from b have 3: "map_sum id track
       (encodeDiscordTrack new_DiscordTrackEncoder (example_info \<lparr> title := [] \<rparr>) example_requester ''g'' ''c'')
     = map_sum id track (encodeTrack (new_TrackEncoder no_options) (example_info \<lparr> title := [] \<rparr>))"
    unfolding d by (rule conjunct1)
  show ?thesis unfolding 1 2 3 encodeTrack_example e by simp
qed


text \<open>
  Claim C5.  The constructor of \<open>LavalinkEncoder\<close> passes its options to the track and
  playlist encoders but builds the \<open>DiscordTrackEncoder\<close> with none: constructed with
  \<open>validate: false\<close> and \<open>sourceName: 'custom'\<close>, the Discord encoder still has
  \<open>validate = true\<close> and \<open>sourceName = 'unknown'\<close>, so that \<open>encodeTrack\<close> accepts a record
  with an empty identifier and \<open>encodeDiscordTrack\<close> throws on it.  \<open>updateOptions\<close> with
  the same options does reach the Discord encoder.
\<close>

theorem constructor_options_not_inherited:
  "trackEncoder_l (new_LavalinkEncoder (no_options \<lparr> validate' := Some False, sourceName_opt' := Some ''custom'' \<rparr>))
     = \<lparr> includeArtwork = True, includeISRC = True, sourceName_opt = ''custom'', validate = False \<rparr>
   \<and> trackEncoder_d (discordEncoder
        (new_LavalinkEncoder (no_options \<lparr> validate' := Some False, sourceName_opt' := Some ''custom'' \<rparr>)))
     = \<lparr> includeArtwork = True, includeISRC = True, sourceName_opt = ''unknown'', validate = True \<rparr>
   \<and> map_sum id info
        (LavalinkEncoder_encodeTrack
           (new_LavalinkEncoder (no_options \<lparr> validate' := Some False, sourceName_opt' := Some ''custom'' \<rparr>))
           (example_info \<lparr> identifier := [] \<rparr>))
     = Inr (example_info \<lparr> identifier := [] \<rparr>)
   \<and> LavalinkEncoder_encodeDiscordTrack
        (new_LavalinkEncoder (no_options \<lparr> validate' := Some False, sourceName_opt' := Some ''custom'' \<rparr>))
        (example_info \<lparr> identifier := [] \<rparr>) example_requester ''g'' ''c''
     = Inl (Error ''Track identifier is required'')
   \<and> trackEncoder_d (discordEncoder
        (LavalinkEncoder_updateOptions (new_LavalinkEncoder no_options)
           (no_options \<lparr> validate' := Some False, sourceName_opt' := Some ''custom'' \<rparr>)))
     = \<lparr> includeArtwork = True, includeISRC = True, sourceName_opt = ''custom'', validate = False \<rparr>"
  by (simp add: new_LavalinkEncoder_def new_TrackEncoder_def new_DiscordTrackEncoder_def no_options_def
        default_of_def LavalinkEncoder_encodeTrack_def LavalinkEncoder_encodeDiscordTrack_def
        encodeDiscordTrack_def encodeTrack_def validateTrackInfo_def example_info_def
        LavalinkEncoder_updateOptions_def DiscordTrackEncoder_updateOptions_def
        TrackEncoder_updateOptions_def)




section \<open>Playlists: the cap, \<open>splitPlaylist\<close> and \<open>mergePlaylists\<close>\<close>

lemma slice_from_0: "0 < m \<Longrightarrow> slice xs 0 m = take (nat m) xs"
  by (auto simp: slice_def Let_def min_def)

lemma slice_nat: "slice xs (int a) (int a + int c) = take c (drop a xs)"
proof -
  have k: "min (int a) (int (length xs)) = int (min a (length xs))" by simp
  have f: "min (int a + int c) (int (length xs)) = int (min (a + c) (length xs))" by simp
  have "slice xs (int a) (int a + int c)
          = take (min (a + c) (length xs) - min a (length xs)) (drop (min a (length xs)) xs)"
    unfolding slice_def Let_def k f by (simp del: of_nat_add add: nat_diff_distrib')
  also have "\<dots> = take c (drop a xs)"
    by (cases "a \<le> length xs") (auto simp: min_def)
  finally show ?thesis .
qed

lemma encode_tracks_tokens:
  "\<forall>t \<in> set ts. track t \<noteq> [] \<Longrightarrow> encode_tracks te ts = Inr ts"
  by (induction ts) simp_all

lemma encode_tracks_result:
  "encode_tracks te ts = Inr ts' \<Longrightarrow>
     length ts' = length ts \<and> map info ts' = map info ts
     \<and> (\<forall>k < length ts. track (ts ! k) \<noteq> [] \<longrightarrow> ts' ! k = ts ! k)"
proof (induction ts arbitrary: ts')
  case Nil
  then show ?case by simp
next
  case (Cons t ts)
  from Cons.prems obtain t' us where
    t': "(if track t \<noteq> [] then Inr t else encodeTrack te (info t)) = Inr t'"
    and us: "encode_tracks te ts = Inr us" and eq: "ts' = t' # us"
    by (auto split: sum.splits)
  have "info t' = info t \<and> (track t \<noteq> [] \<longrightarrow> t' = t)"
    using t' by (auto simp: encodeTrack_def split: if_splits sum.splits)
  with Cons.IH [OF us] eq show ?case
    by (auto simp: nth_Cons split: nat.splits)
qed

lemma encode_tracks_total:
  "\<forall>t \<in> set ts. track t \<noteq> [] \<or> \<not> validate te \<or> validateTrackInfo (info t) = Inr ()
     \<Longrightarrow> \<exists>ts'. encode_tracks te ts = Inr ts'"
  by (induction ts) (auto simp: encodeTrack_def)

lemma limited_eq: "limited this xs = (if maxTracks (options this) > 0 then slice xs 0 (maxTracks (options this)) else xs)"
  by (simp add: limited_def slice_from_0)


lemma encode_tracks_encoded:
  "list_all (encodable te) ts \<Longrightarrow> encode_tracks te ts = Inr (map (encoded te) ts)"
  by (induction ts) (auto simp: encodable_def encoded_def encodeTrack_def)

lemma encode_tracks_fails:
  "\<not> list_all (encodable te) ts \<Longrightarrow> \<exists>e. encode_tracks te ts = Inl e"
  by (induction ts) (auto simp: encodable_def encodeTrack_def split: sum.splits)

lemma encoded_info: "map info (map (encoded te) ts) = map info ts"
  by (induction ts) (simp_all add: encoded_def)

lemma encoded_tokens: "\<forall>t \<in> set ts. track t \<noteq> [] \<Longrightarrow> map (encoded te) ts = ts"
  by (induction ts) (simp_all add: encoded_def)

lemma encoded_idem: "encoded te (encoded te t) = encoded te t"
  by (simp add: encoded_def)

lemma encodable_encoded: "encodable te t \<Longrightarrow> encodable te (encoded te t)"
  by (auto simp: encodable_def encoded_def)

lemma encodable_tokens: "\<forall>t \<in> set ts. track t \<noteq> [] \<Longrightarrow> list_all (encodable te) ts"
  by (simp add: list_all_iff encodable_def)

lemma encodePlaylist_accepts:
  assumes v: "validate (options this) \<longrightarrow> name pi \<noteq> [] \<and> 0 \<le> selectedTrack pi \<and> ts \<noteq> []"
    and a: "list_all (encodable (trackEncoder this)) (limited this ts)"
  shows "\<exists>lines. encodePlaylist this pi ts =
           (lines, Inr \<lparr> info_p = \<lparr> name = name pi,
                                    selectedTrack = min (selectedTrack pi)
                                                      (int (length (limited this ts)) - 1) \<rparr>,
                         pluginInfo = [],
                         tracks = map (encoded (trackEncoder this)) (limited this ts) \<rparr>)"
proof -
  from a have enc: "encode_tracks (trackEncoder this) (limited this ts)
                      = Inr (map (encoded (trackEncoder this)) (limited this ts))"
    by (rule encode_tracks_encoded)
  show ?thesis
    using v enc
    by (auto simp: encodePlaylist_def Let_def validatePlaylistInfo_def validateTracks_def
          limited_eq split: sum.splits prod.splits)
qed

lemma encodePlaylist_rejects:
  assumes "\<not> ((validate (options this) \<longrightarrow> name pi \<noteq> [] \<and> 0 \<le> selectedTrack pi \<and> ts \<noteq> [])
              \<and> list_all (encodable (trackEncoder this)) (limited this ts))"
  shows "\<exists>lines e. encodePlaylist this pi ts = (lines, Inl e)"
proof (cases "list_all (encodable (trackEncoder this)) (limited this ts)")
  case True
  with assms show ?thesis
    by (auto simp: encodePlaylist_def Let_def validatePlaylistInfo_def validateTracks_def
          split: sum.splits prod.splits)
next
  case False
  then obtain e where "encode_tracks (trackEncoder this) (limited this ts) = Inl e"
    using encode_tracks_fails by blast
  then show ?thesis
    by (auto simp: encodePlaylist_def Let_def validatePlaylistInfo_def validateTracks_def
          limited_eq split: sum.splits prod.splits)
qed

lemma chunk_index: "0 < c \<Longrightarrow> k < (n + c - 1) div c \<longleftrightarrow> k * c < (n::nat)"
proof -
  assume c: "0 < c"
  have "Suc k \<le> (n + c - 1) div c \<longleftrightarrow> Suc k * c \<le> n + c - 1"
    using c by (simp add: less_eq_div_iff_mult_less_eq)
  also have "\<dots> \<longleftrightarrow> k * c < n" using c by auto
  finally show ?thesis by (simp add: Suc_le_eq)
qed

lemma part_number_nat: "0 < c \<Longrightarrow> part_number (int (k * c)) (int c) = string_of_int (int k + 1)"
proof -
  assume c: "0 < c"
  have "int (k * c) div int c = int (k * c div c)" by (simp only: zdiv_int)
  with c show ?thesis by (simp add: part_number_def)
qed


lemma concat_chunks:
  "concat (map (\<lambda>k. take c (drop (k * c) xs)) [0..<K]) = take (K * c) xs"
proof (induction K)
  case 0
  then show ?case by simp
next
  case (Suc K)
  have "take (K * c) xs @ take c (drop (K * c) xs) = take (K * c + c) xs"
    by (simp add: take_add)
  with Suc show ?case by (simp add: add.commute)
qed

lemma chunk_count_cover: "0 < c \<Longrightarrow> n \<le> ((n + c - 1) div c) * (c::nat)"
proof -
  assume c: "0 < c"
  have "\<not> ((n + c - 1) div c) < (n + c - 1) div c" by simp
  then have "\<not> ((n + c - 1) div c) * c < n" using chunk_index [OF c] by blast
  then show ?thesis by simp
qed

lemma limited_id:
  "maxTracks (options this) \<le> 0 \<or> int (length xs) \<le> maxTracks (options this) \<Longrightarrow> limited this xs = xs"
  by (auto simp: limited_def)

lemma limited_length: "length (limited this xs) \<le> length xs"
  by (simp add: limited_def)

lemma limited_nonempty: "xs \<noteq> [] \<Longrightarrow> limited this xs \<noteq> []"
  by (cases xs) (auto simp: limited_def)

text \<open>
  Claim C6 as the code has it.  The playlist \<open>encodePlaylist\<close> returns holds the first
  \<open>min n maxTracks\<close> tracks of the input, in order, when \<open>maxTracks > 0\<close>, and all of them
  otherwise (a track that had a token is unchanged, the others are encoded).  The warning is
  written exactly when validation is enabled, the playlist info and the track list pass it,
  and \<open>n\<close> exceeds a positive \<open>maxTracks\<close>.  Exceeding the cap throws nothing: the call
  returns whenever validation passes and each kept track has a token or can be encoded.
\<close>

theorem maxTracks_truncation:
  "(\<forall>lines pl. encodePlaylist this pi ts = (lines, Inr pl) \<longrightarrow>
       length (tracks pl) = length (limited this ts)
     \<and> map info (tracks pl) = map info (limited this ts)
     \<and> (\<forall>k < length (tracks pl). track (ts ! k) \<noteq> [] \<longrightarrow> tracks pl ! k = ts ! k))
   \<and> limited this ts
       = (if maxTracks (options this) > 0 then take (min (length ts) (nat (maxTracks (options this)))) ts
          else ts)
   \<and> fst (encodePlaylist this pi ts)
       = (if validate (options this) \<and> name pi \<noteq> [] \<and> 0 \<le> selectedTrack pi \<and> ts \<noteq> []
             \<and> maxTracks (options this) > 0 \<and> int (length ts) > maxTracks (options this)
          then [maxTracks_warning (length ts) (maxTracks (options this))] else [])
   \<and> ((validate (options this) \<longrightarrow> name pi \<noteq> [] \<and> 0 \<le> selectedTrack pi \<and> ts \<noteq> [])
        \<and> (\<forall>t \<in> set (limited this ts).
              track t \<noteq> [] \<or> \<not> validate (trackEncoder this) \<or> validateTrackInfo (info t) = Inr ())
       \<longrightarrow> (\<exists>pl. snd (encodePlaylist this pi ts) = Inr pl))"
proof (intro conjI allI impI)
  fix lines pl
  assume e: "encodePlaylist this pi ts = (lines, Inr pl)"
  then have "encode_tracks (trackEncoder this) (limited this ts) = Inr (tracks pl)"
    by (auto simp: encodePlaylist_def Let_def limited_eq split: if_splits sum.splits prod.splits)
  from encode_tracks_result [OF this]
  have r: "length (tracks pl) = length (limited this ts)"
    "map info (tracks pl) = map info (limited this ts)"
    "\<forall>k < length (limited this ts). track (limited this ts ! k) \<noteq> [] \<longrightarrow> tracks pl ! k = limited this ts ! k"
    by blast+
  show "length (tracks pl) = length (limited this ts)" by (rule r)
  show "map info (tracks pl) = map info (limited this ts)" by (rule r)
  fix k assume "k < length (tracks pl)" "track (ts ! k) \<noteq> []"
  moreover have "k < length (limited this ts) \<Longrightarrow> limited this ts ! k = ts ! k"
    by (auto simp: limited_def)
  ultimately show "tracks pl ! k = ts ! k" using r by auto
next
  show "limited this ts
       = (if maxTracks (options this) > 0 then take (min (length ts) (nat (maxTracks (options this)))) ts
          else ts)"
    by (simp add: limited_def min_def)
next
  show "fst (encodePlaylist this pi ts)
       = (if validate (options this) \<and> name pi \<noteq> [] \<and> 0 \<le> selectedTrack pi \<and> ts \<noteq> []
             \<and> maxTracks (options this) > 0 \<and> int (length ts) > maxTracks (options this)
          then [maxTracks_warning (length ts) (maxTracks (options this))] else [])"
    by (auto simp: encodePlaylist_def Let_def validatePlaylistInfo_def validateTracks_def
          split: sum.splits prod.splits)
next
  assume a: "(validate (options this) \<longrightarrow> name pi \<noteq> [] \<and> 0 \<le> selectedTrack pi \<and> ts \<noteq> [])
        \<and> (\<forall>t \<in> set (limited this ts).
              track t \<noteq> [] \<or> \<not> validate (trackEncoder this) \<or> validateTrackInfo (info t) = Inr ())"
  then obtain ts' where "encode_tracks (trackEncoder this) (limited this ts) = Inr ts'"
    using encode_tracks_total by blast
  with a show "\<exists>pl. snd (encodePlaylist this pi ts) = Inr pl"
    by (auto simp: encodePlaylist_def Let_def validatePlaylistInfo_def validateTracks_def limited_eq
          split: sum.splits prod.splits)
qed

theorem maxTracks_truncation_witness:
  "fst (encodePlaylist (new_PlaylistEncoder (no_options \<lparr> maxTracks' := Some 1 \<rparr>))
          \<lparr> name = ''mix'', selectedTrack = 0 \<rparr> [example_track ''a'', example_track ''b''])
     = [''Playlist contains 2 tracks, but maxTracks is set to 1'']
   \<and> (\<exists>pl. snd (encodePlaylist (new_PlaylistEncoder (no_options \<lparr> maxTracks' := Some 1 \<rparr>))
          \<lparr> name = ''mix'', selectedTrack = 0 \<rparr> [example_track ''a'', example_track ''b'']) = Inr pl)"
proof -
  let ?pe = "new_PlaylistEncoder (no_options \<lparr> maxTracks' := Some 1 \<rparr>)"
  let ?pi = "\<lparr> name = ''mix'', selectedTrack = 0 \<rparr>"
  let ?ts = "[example_track ''a'', example_track ''b'']"
  have o: "maxTracks (options ?pe) = 1" "validate (options ?pe)"
    by (simp_all add: new_PlaylistEncoder_def no_options_def default_of_def)
  have w: "maxTracks_warning (Suc (Suc 0)) 1 = ''Playlist contains 2 tracks, but maxTracks is set to 1''"
    by (simp add: maxTracks_warning_def string_of_int_def string_of_nat.simps digit_char_simps)
  have h: "(validate (options ?pe) \<longrightarrow> name ?pi \<noteq> [] \<and> 0 \<le> selectedTrack ?pi \<and> ?ts \<noteq> [])
        \<and> (\<forall>t \<in> set (limited ?pe ?ts).
              track t \<noteq> [] \<or> \<not> validate (trackEncoder ?pe) \<or> validateTrackInfo (info t) = Inr ())"
    by (simp add: limited_def o example_track_def)
  from maxTracks_truncation [of ?pe ?pi ?ts] h o w show ?thesis by simp
qed

text \<open>
  Claim C6 as stated fails: with validation off, two tracks and \<open>maxTracks = 1\<close> the
  playlist is cut to one track and no warning is written.
\<close>

theorem maxTracks_counterexample:
  "encodePlaylist (new_PlaylistEncoder (no_options \<lparr> validate' := Some False, maxTracks' := Some 1 \<rparr>))
     \<lparr> name = ''mix'', selectedTrack = 0 \<rparr> [example_track ''a'', example_track ''b'']
   = ([], Inr \<lparr> info_p = \<lparr> name = ''mix'', selectedTrack = 0 \<rparr>, pluginInfo = [],
                 tracks = [example_track ''a''] \<rparr>)"
  by (simp add: example_track_def encodePlaylist_def new_PlaylistEncoder_def new_TrackEncoder_def no_options_def default_of_def slice_def Let_def)

lemma split_loop:
  assumes c: "0 < c"
  shows "k \<le> (length (tracks p) + c - 1) div c \<Longrightarrow>
         \<exists>W r. splitPlaylist_loop this p (int c) (int (k * c)) lines chunks = Some (lines @ W, r)
              \<and> (if \<forall>j. k \<le> j \<and> j < (length (tracks p) + c - 1) div c \<longrightarrow> chunk_accepted this p c j
                  then r = Inr (chunks @ map (expected_chunk this p c)
                                           [k..<(length (tracks p) + c - 1) div c])
                  else (\<exists>e. r = Inl e))"
proof (induction "(length (tracks p) + c - 1) div c - k" arbitrary: k lines chunks)
  case 0
  then have k: "(length (tracks p) + c - 1) div c \<le> k" by simp
  then have "\<not> k * c < length (tracks p)" using chunk_index [OF c, of k "length (tracks p)"] by simp
  then have nlt: "\<not> int (k * c) < int (length (tracks p))" by linarith
  have e: "[k..<(length (tracks p) + c - 1) div c] = []" using k by simp
  have all: "\<forall>j. k \<le> j \<and> j < (length (tracks p) + c - 1) div c \<longrightarrow> chunk_accepted this p c j"
  proof (intro allI impI)
    fix j assume "k \<le> j \<and> j < (length (tracks p) + c - 1) div c"
    with k have False by linarith
    then show "chunk_accepted this p c j" ..
  qed
  have "splitPlaylist_loop this p (int c) (int (k * c)) lines chunks = Some (lines @ [], Inr chunks)"
    by (subst splitPlaylist_loop.simps) (simp only: nlt if_False append_Nil2)
  then show ?case unfolding e using all by (intro exI [of _ "[]"] exI [of _ "Inr chunks"]) simp
next
  case (Suc d)
  let ?K = "(length (tracks p) + c - 1) div c"
  from Suc.hyps(2) have kK: "k < ?K" by simp
  then have lt: "k * c < length (tracks p)" using chunk_index [OF c] by simp
  let ?ts = "take c (drop (k * c) (tracks p))"
  have ne: "?ts \<noteq> []" using lt c by simp
  let ?pi = "\<lparr> name = name (info_p p) @ '' (Part '' @ string_of_int (int k + 1) @ '')'',
               selectedTrack = (if k = 0 then selectedTrack (info_p p) else 0) \<rparr>"
  have acc: "chunk_accepted this p c k \<longleftrightarrow>
               (validate (options this) \<longrightarrow> name ?pi \<noteq> [] \<and> 0 \<le> selectedTrack ?pi \<and> ?ts \<noteq> [])
               \<and> list_all (encodable (trackEncoder this)) (limited this ?ts)"
    using ne by (auto simp: chunk_accepted_def)
  have z: "(int (k * c) = 0) = (k = 0)" using c by simp
  have lt': "int (k * c) < int (length (tracks p))" using lt by linarith
  have unfold: "splitPlaylist_loop this p (int c) (int (k * c)) lines chunks
          = (case encodePlaylist this ?pi ?ts of
               (new_lines, Inl e) \<Rightarrow> Some (lines @ new_lines, Inl e)
             | (new_lines, Inr chunk) \<Rightarrow>
                 splitPlaylist_loop this p (int c) (int (k * c) + int c) (lines @ new_lines)
                   (chunks @ [chunk]))"
    apply (subst splitPlaylist_loop.simps)
    apply (simp only: Let_def slice_nat part_number_nat [OF c] z lt' if_True)
    done
  show ?case
  proof (cases "chunk_accepted this p c k")
    case True
    then have v: "validate (options this) \<longrightarrow> name ?pi \<noteq> [] \<and> 0 \<le> selectedTrack ?pi \<and> ?ts \<noteq> []"
      and a: "list_all (encodable (trackEncoder this)) (limited this ?ts)"
      using acc by blast+
    from encodePlaylist_accepts [OF v a] obtain w where
      w: "encodePlaylist this ?pi ?ts =
            (w, Inr \<lparr> info_p = \<lparr> name = name ?pi,
                                selectedTrack = min (selectedTrack ?pi) (int (length (limited this ?ts)) - 1) \<rparr>,
                     pluginInfo = [],
                     tracks = map (encoded (trackEncoder this)) (limited this ?ts) \<rparr>)" by blast
    have len1: "1 \<le> length (limited this ?ts)"
      using ne by (cases ?ts) (auto simp: limited_def nat_le_iff Suc_le_eq)
    have chunk: "\<lparr> info_p = \<lparr> name = name ?pi,
                                selectedTrack = min (selectedTrack ?pi) (int (length (limited this ?ts)) - 1) \<rparr>,
                     pluginInfo = [],
                     tracks = map (encoded (trackEncoder this)) (limited this ?ts) \<rparr>
                 = expected_chunk this p c k"
      using len1 by (auto simp: expected_chunk_def)
    have w': "encodePlaylist this ?pi ?ts = (w, Inr (expected_chunk this p c k))"
      using w chunk by (simp only:)
    have d: "d = ?K - Suc k" using Suc.hyps(2) by simp
    have "Suc k \<le> ?K" using kK by simp
    from Suc.hyps(1) [OF d this, of "lines @ w" "chunks @ [expected_chunk this p c k]"]
    obtain W r where
      W: "splitPlaylist_loop this p (int c) (int (Suc k * c)) (lines @ w)
            (chunks @ [expected_chunk this p c k]) = Some ((lines @ w) @ W, r)"
      and r: "if \<forall>j. Suc k \<le> j \<and> j < ?K \<longrightarrow> chunk_accepted this p c j
              then r = Inr ((chunks @ [expected_chunk this p c k])
                              @ map (expected_chunk this p c) [Suc k..<?K])
              else (\<exists>e. r = Inl e)"
      by blast
    have idx: "int (k * c) + int c = int (Suc k * c)" by simp
    have upt: "[k..<?K] = k # [Suc k..<?K]" using kK by (simp add: upt_conv_Cons)
    have step: "splitPlaylist_loop this p (int c) (int (k * c)) lines chunks
                  = Some (lines @ (w @ W), r)"
      unfolding unfold w' prod.case sum.case idx W by simp
    have all: "(\<forall>j. k \<le> j \<and> j < ?K \<longrightarrow> chunk_accepted this p c j)
                 \<longleftrightarrow> (\<forall>j. Suc k \<le> j \<and> j < ?K \<longrightarrow> chunk_accepted this p c j)"
      using True by (metis Suc_leI le_neq_implies_less Suc_leD)
    have "if \<forall>j. k \<le> j \<and> j < ?K \<longrightarrow> chunk_accepted this p c j
          then r = Inr (chunks @ map (expected_chunk this p c) [k..<?K])
          else (\<exists>e. r = Inl e)"
      using r unfolding all upt by simp
    with step show ?thesis by blast
  next
    case False
    then obtain w e where w: "encodePlaylist this ?pi ?ts = (w, Inl e)"
      using encodePlaylist_rejects [of this ?pi ?ts] acc by blast
    have step: "splitPlaylist_loop this p (int c) (int (k * c)) lines chunks = Some (lines @ w, Inl e)"
      unfolding unfold w prod.case sum.case ..
    have "\<not> (\<forall>j. k \<le> j \<and> j < ?K \<longrightarrow> chunk_accepted this p c j)"
      using False kK by auto
    with step show ?thesis by auto
  qed
qed

lemma split_result:
  assumes c: "0 < c"
  shows "\<exists>W r. splitPlaylist this p (int c) = Some (W, r)
           \<and> (if \<forall>j < (length (tracks p) + c - 1) div c. chunk_accepted this p c j
               then r = Inr (map (expected_chunk this p c) [0..<(length (tracks p) + c - 1) div c])
               else (\<exists>e. r = Inl e))"
proof -
  from split_loop [OF c, of 0 p this "[]" "[]"] obtain W r where
    l: "splitPlaylist_loop this p (int c) (int (0 * c)) [] [] = Some ([] @ W, r)"
    and r: "if \<forall>j. 0 \<le> j \<and> j < (length (tracks p) + c - 1) div c \<longrightarrow> chunk_accepted this p c j
            then r = Inr ([] @ map (expected_chunk this p c) [0..<(length (tracks p) + c - 1) div c])
            else (\<exists>e. r = Inl e)"
    by blast
  from l have "splitPlaylist this p (int c) = Some (W, r)" by (simp add: splitPlaylist_def)
  moreover from r
  have "if \<forall>j < (length (tracks p) + c - 1) div c. chunk_accepted this p c j
        then r = Inr (map (expected_chunk this p c) [0..<(length (tracks p) + c - 1) div c])
        else (\<exists>e. r = Inl e)"
    by (simp only: le0 simp_thms append_Nil)
  ultimately show ?thesis by blast
qed

lemma list_all_chunks:
  assumes c: "0 < c"
  shows "(\<forall>k < (length xs + c - 1) div c. list_all P (take c (drop (k * c) xs))) \<longleftrightarrow> list_all P xs"
proof -
  let ?K = "(length xs + c - 1) div c"
  have "xs = take (?K * c) xs" using chunk_count_cover [OF c, of "length xs"] by simp
  also have "\<dots> = concat (map (\<lambda>k. take c (drop (k * c) xs)) [0..<?K])"
    by (simp only: concat_chunks)
  finally have "list_all P xs
                  \<longleftrightarrow> list_all P (concat (map (\<lambda>k. take c (drop (k * c) xs)) [0..<?K]))"
    by simp
  also have "\<dots> \<longleftrightarrow> (\<forall>k < ?K. list_all P (take c (drop (k * c) xs)))"
    by (auto simp: list_all_iff)
  finally show ?thesis by simp
qed

text \<open>
  Claim C3 as the code has it.  For \<open>chunkSize \<ge> 1\<close>, \<open>splitPlaylist\<close> ends.  It returns
  chunks exactly when \<open>encodePlaylist\<close> accepts each of them (\<open>chunk_accepted\<close>); this is so
  when every track has a token and validation is off or \<open>selectedTrack \<ge> 0\<close>.  It then
  returns \<open>\<lceil>n / chunkSize\<rceil>\<close> chunks.  Chunk \<open>k\<close> holds the \<open>k\<close>-th run of \<open>chunkSize\<close>
  tracks, cut to the first \<open>maxTracks\<close> of them when \<open>maxTracks > 0\<close>, each track as
  \<open>encodePlaylist\<close> returns it (unchanged when it has a token, so that the chunk is the cut
  run itself when all tracks have one); it is not empty; its name is the parent name
  followed by \<open>(Part k+1)\<close>.  The first chunk's \<open>selectedTrack\<close> is the parent's, clamped to
  the last index of the first chunk; every other chunk's is 0.  When \<open>maxTracks \<le> 0\<close> or
  \<open>chunkSize \<le> maxTracks\<close> the chunks partition the track sequence: their concatenation is
  the sequence (of the records, and of the tracks with their tokens when all have one), each
  has at most \<open>chunkSize\<close> tracks and all but the last have exactly \<open>chunkSize\<close>.
\<close>

theorem splitPlaylist_chunks:
  assumes cs: "1 \<le> chunkSize"
  shows "\<exists>lines r.
           splitPlaylist this p chunkSize = Some (lines, r)
         \<and> ((\<exists>chunks. r = Inr chunks) \<longleftrightarrow>
              (\<forall>k < (length (tracks p) + nat chunkSize - 1) div nat chunkSize.
                  chunk_accepted this p (nat chunkSize) k))
         \<and> ((\<forall>t \<in> set (tracks p). track t \<noteq> [])
              \<and> (validate (options this) \<longrightarrow> 0 \<le> selectedTrack (info_p p))
              \<longrightarrow> (\<exists>chunks. r = Inr chunks))
         \<and> (\<forall>chunks. r = Inr chunks \<longrightarrow>
               length chunks = (length (tracks p) + nat chunkSize - 1) div nat chunkSize
             \<and> (\<forall>k < length chunks.
                   tracks (chunks ! k)
                     = map (encoded (trackEncoder this))
                         (limited this (take (nat chunkSize) (drop (k * nat chunkSize) (tracks p))))
                 \<and> map info (tracks (chunks ! k))
                     = map info (limited this (take (nat chunkSize) (drop (k * nat chunkSize) (tracks p))))
                 \<and> ((\<forall>t \<in> set (tracks p). track t \<noteq> []) \<longrightarrow>
                       tracks (chunks ! k)
                         = limited this (take (nat chunkSize) (drop (k * nat chunkSize) (tracks p))))
                 \<and> tracks (chunks ! k) \<noteq> []
                 \<and> name (info_p (chunks ! k))
                     = name (info_p p) @ '' (Part '' @ string_of_int (int k + 1) @ '')''
                 \<and> selectedTrack (info_p (chunks ! k))
                     = (if k = 0 then min (selectedTrack (info_p p))
                                          (int (length (tracks (chunks ! 0))) - 1)
                        else 0))
             \<and> (maxTracks (options this) \<le> 0 \<or> chunkSize \<le> maxTracks (options this) \<longrightarrow>
                   map info (concat (map tracks chunks)) = map info (tracks p)
                 \<and> concat (map tracks chunks) = map (encoded (trackEncoder this)) (tracks p)
                 \<and> ((\<forall>t \<in> set (tracks p). track t \<noteq> []) \<longrightarrow> concat (map tracks chunks) = tracks p)
                 \<and> (\<forall>k < length chunks.
                       length (tracks (chunks ! k)) \<le> nat chunkSize
                     \<and> (k + 1 < length chunks \<longrightarrow> length (tracks (chunks ! k)) = nat chunkSize))))"
proof -
  define c where "c = nat chunkSize"
  define K where "K = (length (tracks p) + c - 1) div c"
  define te where "te = trackEncoder this"
  define run where "run = (\<lambda>k. take c (drop (k * c) (tracks p)))"
  have c: "0 < c" and csc: "chunkSize = int c" using cs by (simp_all add: c_def)
  from split_result [OF c, of this p] obtain W r where
    W: "splitPlaylist this p chunkSize = Some (W, r)"
    and r: "if \<forall>j < K. chunk_accepted this p c j
            then r = Inr (map (expected_chunk this p c) [0..<K])
            else (\<exists>e. r = Inl e)"
    unfolding csc K_def by blast
  have iff: "(\<exists>chunks. r = Inr chunks) \<longleftrightarrow> (\<forall>k < K. chunk_accepted this p c k)"
    using r by (auto split: if_splits)
  have tok_all: "\<forall>k < K. chunk_accepted this p c k"
    if tok: "\<forall>t \<in> set (tracks p). track t \<noteq> []"
      and sel: "validate (options this) \<longrightarrow> 0 \<le> selectedTrack (info_p p)"
  proof (intro allI impI)
    fix k assume "k < K"
    have "\<forall>t \<in> set (limited this (take c (drop (k * c) (tracks p)))). track t \<noteq> []"
      using tok by (auto simp: limited_def dest!: in_set_takeD in_set_dropD)
    then have "list_all (encodable (trackEncoder this)) (limited this (take c (drop (k * c) (tracks p))))"
      by (rule encodable_tokens)
    with sel show "chunk_accepted this p c k" by (simp add: chunk_accepted_def)
  qed
  have ret: "(\<forall>t \<in> set (tracks p). track t \<noteq> [])
              \<and> (validate (options this) \<longrightarrow> 0 \<le> selectedTrack (info_p p))
              \<longrightarrow> (\<exists>chunks. r = Inr chunks)"
    using tok_all iff by blast
  have res: "length chunks = K
             \<and> (\<forall>k < length chunks.
                   tracks (chunks ! k) = map (encoded te) (limited this (run k))
                 \<and> map info (tracks (chunks ! k)) = map info (limited this (run k))
                 \<and> ((\<forall>t \<in> set (tracks p). track t \<noteq> []) \<longrightarrow>
                       tracks (chunks ! k) = limited this (run k))
                 \<and> tracks (chunks ! k) \<noteq> []
                 \<and> name (info_p (chunks ! k))
                     = name (info_p p) @ '' (Part '' @ string_of_int (int k + 1) @ '')''
                 \<and> selectedTrack (info_p (chunks ! k))
                     = (if k = 0 then min (selectedTrack (info_p p))
                                          (int (length (tracks (chunks ! 0))) - 1)
                        else 0))
             \<and> (maxTracks (options this) \<le> 0 \<or> chunkSize \<le> maxTracks (options this) \<longrightarrow>
                   map info (concat (map tracks chunks)) = map info (tracks p)
                 \<and> concat (map tracks chunks) = map (encoded te) (tracks p)
                 \<and> ((\<forall>t \<in> set (tracks p). track t \<noteq> []) \<longrightarrow> concat (map tracks chunks) = tracks p)
                 \<and> (\<forall>k < length chunks.
                       length (tracks (chunks ! k)) \<le> c
                     \<and> (k + 1 < length chunks \<longrightarrow> length (tracks (chunks ! k)) = c)))"
    if rc: "r = Inr chunks" for chunks
  proof -
    from rc r have chunks: "chunks = map (expected_chunk this p c) [0..<K]"
      by (auto split: if_splits)
    have len: "length chunks = K" by (simp add: chunks)
    have nth: "chunks ! k = expected_chunk this p c k" if "k < K" for k
      using that by (simp add: chunks)
    have trk: "tracks (chunks ! k) = map (encoded te) (limited this (run k))" if "k < K" for k
      using nth [OF that] by (simp add: expected_chunk_def te_def run_def)
    have ne: "run k \<noteq> []" if "k < K" for k
      using that c chunk_index [OF c, of k "length (tracks p)"] by (simp add: K_def run_def)
    have tokrun: "map (encoded te) (limited this (run k)) = limited this (run k)"
      if "\<forall>t \<in> set (tracks p). track t \<noteq> []" for k
    proof (rule encoded_tokens)
      show "\<forall>t \<in> set (limited this (run k)). track t \<noteq> []"
        using that by (auto simp: limited_def run_def dest!: in_set_takeD in_set_dropD)
    qed
    have each: "tracks (chunks ! k) = map (encoded te) (limited this (run k))
              \<and> map info (tracks (chunks ! k)) = map info (limited this (run k))
              \<and> ((\<forall>t \<in> set (tracks p). track t \<noteq> []) \<longrightarrow>
                    tracks (chunks ! k) = limited this (run k))
              \<and> tracks (chunks ! k) \<noteq> []
              \<and> name (info_p (chunks ! k)) = name (info_p p) @ '' (Part '' @ string_of_int (int k + 1) @ '')''
              \<and> selectedTrack (info_p (chunks ! k))
                   = (if k = 0 then min (selectedTrack (info_p p)) (int (length (tracks (chunks ! 0))) - 1)
                      else 0)" if k: "k < K" for k
    proof -
      have "0 < K" using k by simp
      then have "chunks ! 0 = expected_chunk this p c 0" by (rule nth)
      then have l0: "length (tracks (chunks ! 0)) = length (limited this (take c (tracks p)))"
        by (simp add: expected_chunk_def)
      have n: "name (info_p (chunks ! k)) = name (info_p p) @ '' (Part '' @ string_of_int (int k + 1) @ '')''"
        and s: "selectedTrack (info_p (chunks ! k))
                   = (if k = 0 then min (selectedTrack (info_p p)) (int (length (tracks (chunks ! 0))) - 1)
                      else 0)"
        using nth [OF k] l0 by (simp_all add: expected_chunk_def)
      have t: "tracks (chunks ! k) \<noteq> []"
        using limited_nonempty [OF ne [OF k], of this] by (simp add: trk [OF k])
      have i: "map info (tracks (chunks ! k)) = map info (limited this (run k))"
        unfolding trk [OF k] by (rule encoded_info)
      have u: "(\<forall>t \<in> set (tracks p). track t \<noteq> []) \<longrightarrow>
                    tracks (chunks ! k) = limited this (run k)"
        unfolding trk [OF k] using tokrun [of k] by (rule impI)
      from trk [OF k] i u t n s show ?thesis by (intro conjI)
    qed
    have part: "map info (concat (map tracks chunks)) = map info (tracks p)
             \<and> concat (map tracks chunks) = map (encoded te) (tracks p)
             \<and> ((\<forall>t \<in> set (tracks p). track t \<noteq> []) \<longrightarrow> concat (map tracks chunks) = tracks p)
             \<and> (\<forall>k < K. length (tracks (chunks ! k)) \<le> c
                   \<and> (k + 1 < K \<longrightarrow> length (tracks (chunks ! k)) = c))"
      if m: "maxTracks (options this) \<le> 0 \<or> chunkSize \<le> maxTracks (options this)"
    proof -
      have id: "limited this (run k) = run k" for k
        unfolding run_def using m by (intro limited_id) (auto simp: csc)
      have "map tracks chunks = map (\<lambda>k. map (encoded te) (take c (drop (k * c) (tracks p)))) [0..<K]"
        using id by (simp add: chunks expected_chunk_def te_def run_def)
      then have "concat (map tracks chunks)
                   = map (encoded te) (concat (map (\<lambda>k. take c (drop (k * c) (tracks p))) [0..<K]))"
        by (simp add: map_concat o_def)
      also have "\<dots> = map (encoded te) (take (K * c) (tracks p))"
        by (simp only: concat_chunks)
      also have "\<dots> = map (encoded te) (tracks p)"
        using chunk_count_cover [OF c, of "length (tracks p)"] by (simp add: K_def)
      finally have 1: "concat (map tracks chunks) = map (encoded te) (tracks p)" .
      have 0: "map info (concat (map tracks chunks)) = map info (tracks p)"
        unfolding 1 by (rule encoded_info)
      have 3: "(\<forall>t \<in> set (tracks p). track t \<noteq> []) \<longrightarrow> concat (map tracks chunks) = tracks p"
        unfolding 1 using encoded_tokens by blast
      have 2: "length (tracks (chunks ! k)) \<le> c
               \<and> (k + 1 < K \<longrightarrow> length (tracks (chunks ! k)) = c)" if k: "k < K" for k
      proof -
        have t: "length (tracks (chunks ! k)) = length (take c (drop (k * c) (tracks p)))"
          using trk [OF k] id [of k] by (simp add: run_def)
        have "(k + 1) * c < length (tracks p)" if "k + 1 < K"
          using that chunk_index [OF c, of "k + 1" "length (tracks p)"] by (simp add: K_def)
        then show ?thesis unfolding t by auto
      qed
      from 2 have "\<forall>k < K. length (tracks (chunks ! k)) \<le> c
                   \<and> (k + 1 < K \<longrightarrow> length (tracks (chunks ! k)) = c)" by blast
      with 0 1 3 show ?thesis by (intro conjI)
    qed
    from each have each': "\<forall>k < length chunks.
                   tracks (chunks ! k) = map (encoded te) (limited this (run k))
                 \<and> map info (tracks (chunks ! k)) = map info (limited this (run k))
                 \<and> ((\<forall>t \<in> set (tracks p). track t \<noteq> []) \<longrightarrow>
                       tracks (chunks ! k) = limited this (run k))
                 \<and> tracks (chunks ! k) \<noteq> []
                 \<and> name (info_p (chunks ! k))
                     = name (info_p p) @ '' (Part '' @ string_of_int (int k + 1) @ '')''
                 \<and> selectedTrack (info_p (chunks ! k))
                     = (if k = 0 then min (selectedTrack (info_p p))
                                          (int (length (tracks (chunks ! 0))) - 1)
                        else 0)"
      unfolding len by (intro allI impI)
    from part have part': "maxTracks (options this) \<le> 0 \<or> chunkSize \<le> maxTracks (options this) \<longrightarrow>
                   map info (concat (map tracks chunks)) = map info (tracks p)
                 \<and> concat (map tracks chunks) = map (encoded te) (tracks p)
                 \<and> ((\<forall>t \<in> set (tracks p). track t \<noteq> []) \<longrightarrow> concat (map tracks chunks) = tracks p)
                 \<and> (\<forall>k < length chunks.
                       length (tracks (chunks ! k)) \<le> c
                     \<and> (k + 1 < length chunks \<longrightarrow> length (tracks (chunks ! k)) = c))"
      unfolding len by (rule impI)
    from len each' part' show ?thesis by (intro conjI)
  qed
  from res have res': "\<forall>chunks. r = Inr chunks \<longrightarrow>
             length chunks = K
             \<and> (\<forall>k < length chunks.
                   tracks (chunks ! k) = map (encoded te) (limited this (run k))
                 \<and> map info (tracks (chunks ! k)) = map info (limited this (run k))
                 \<and> ((\<forall>t \<in> set (tracks p). track t \<noteq> []) \<longrightarrow>
                       tracks (chunks ! k) = limited this (run k))
                 \<and> tracks (chunks ! k) \<noteq> []
                 \<and> name (info_p (chunks ! k))
                     = name (info_p p) @ '' (Part '' @ string_of_int (int k + 1) @ '')''
                 \<and> selectedTrack (info_p (chunks ! k))
                     = (if k = 0 then min (selectedTrack (info_p p))
                                          (int (length (tracks (chunks ! 0))) - 1)
                        else 0))
             \<and> (maxTracks (options this) \<le> 0 \<or> chunkSize \<le> maxTracks (options this) \<longrightarrow>
                   map info (concat (map tracks chunks)) = map info (tracks p)
                 \<and> concat (map tracks chunks) = map (encoded te) (tracks p)
                 \<and> ((\<forall>t \<in> set (tracks p). track t \<noteq> []) \<longrightarrow> concat (map tracks chunks) = tracks p)
                 \<and> (\<forall>k < length chunks.
                       length (tracks (chunks ! k)) \<le> c
                     \<and> (k + 1 < length chunks \<longrightarrow> length (tracks (chunks ! k)) = c)))"
    by (intro allI impI)
  from W iff ret res' show ?thesis
    unfolding K_def te_def run_def c_def
    by (intro exI [of _ W] exI [of _ r] conjI)
qed

theorem splitPlaylist_chunks_witness:
  "\<exists>lines chunks.
      splitPlaylist (new_PlaylistEncoder no_options) (example_playlist 2) 2 = Some (lines, Inr chunks)
    \<and> length chunks = 2
    \<and> selectedTrack (info_p (chunks ! 0)) = 1
    \<and> concat (map tracks chunks) = tracks (example_playlist 2)"
proof -
  let ?pe = "new_PlaylistEncoder no_options"
  let ?p = "example_playlist 2"
  have m: "maxTracks (options ?pe) = 1000"
    by (simp add: new_PlaylistEncoder_def no_options_def default_of_def)
  have 1: "1 \<le> (2::int)" by simp
  have 2: "\<forall>t \<in> set (tracks ?p). track t \<noteq> []"
    by (simp add: example_playlist_def example_track_def)
  have 3: "validate (options ?pe) \<longrightarrow> 0 \<le> selectedTrack (info_p ?p)"
    by (simp add: example_playlist_def)
  show ?thesis
    using splitPlaylist_chunks [OF 1, of ?pe ?p]
  proof (elim exE conjE, goal_cases)
    case (1 lines r)
    from 1(3) 2 3 obtain chunks where r: "r = Inr chunks" by blast
    note f = 1(4) [rule_format, OF r]
    have len: "length chunks = 2"
      using f [THEN conjunct1] by (simp add: example_playlist_def)
    then have k0: "0 < length chunks" by simp
    note e = f [THEN conjunct2, THEN conjunct1, rule_format, OF k0]
    from e [THEN conjunct2, THEN conjunct2, THEN conjunct1] 2
    have t0: "tracks (chunks ! 0) = limited ?pe (take (nat 2) (drop (0 * nat 2) (tracks ?p)))"
      by (rule mp)
    from e [THEN conjunct2, THEN conjunct2, THEN conjunct2, THEN conjunct2, THEN conjunct2]
    have "selectedTrack (info_p (chunks ! 0))
             = min (selectedTrack (info_p ?p)) (int (length (tracks (chunks ! 0))) - 1)"
      by simp
    then have sel: "selectedTrack (info_p (chunks ! 0)) = 1"
      unfolding t0 by (simp add: limited_def m example_playlist_def)
    have "maxTracks (options ?pe) \<le> 0 \<or> 2 \<le> maxTracks (options ?pe)" by (simp add: m)
    from f [THEN conjunct2, THEN conjunct2, rule_format, OF this]
    have "(\<forall>t \<in> set (tracks ?p). track t \<noteq> []) \<longrightarrow> concat (map tracks chunks) = tracks ?p"
      by (rule conjunct1 [OF conjunct2 [OF conjunct2]])
    with 2 have "concat (map tracks chunks) = tracks ?p" by (rule rev_mp)
    with 1(1) r len sel show ?case by (intro exI [of _ lines] exI [of _ chunks] conjI) simp_all
  qed
qed

text \<open>
  Claim C3 as stated fails twice.  A playlist of three tracks with \<open>selectedTrack = 2\<close>, split
  in chunks of two, has a first chunk with \<open>selectedTrack = 1\<close>.  With \<open>maxTracks = 1\<close> the
  same split drops the second track: its chunks are no partition.
\<close>

theorem splitPlaylist_counterexample:
  "splitPlaylist (new_PlaylistEncoder no_options) (example_playlist 2) 2 =
     Some ([], Inr [\<lparr> info_p = \<lparr> name = ''mix (Part 1)'', selectedTrack = 1 \<rparr>, pluginInfo = [],
                       tracks = [example_track ''a'', example_track ''b''] \<rparr>,
                    \<lparr> info_p = \<lparr> name = ''mix (Part 2)'', selectedTrack = 0 \<rparr>, pluginInfo = [],
                       tracks = [example_track ''c''] \<rparr>])
   \<and> selectedTrack (info_p (example_playlist 2)) = 2
   \<and> splitPlaylist (new_PlaylistEncoder (no_options \<lparr> maxTracks' := Some 1 \<rparr>)) (example_playlist 0) 2 =
     Some ([''Playlist contains 2 tracks, but maxTracks is set to 1''],
           Inr [\<lparr> info_p = \<lparr> name = ''mix (Part 1)'', selectedTrack = 0 \<rparr>, pluginInfo = [],
                       tracks = [example_track ''a''] \<rparr>,
                \<lparr> info_p = \<lparr> name = ''mix (Part 2)'', selectedTrack = 0 \<rparr>, pluginInfo = [],
                       tracks = [example_track ''c''] \<rparr>])"
  by (simp add: splitPlaylist_def splitPlaylist_loop.simps example_playlist_def encodePlaylist_def
        new_PlaylistEncoder_def new_TrackEncoder_def no_options_def default_of_def
        validatePlaylistInfo_def validateTracks_def slice_def part_number_def string_of_int_def
        string_of_nat.simps digit_char_simps example_track_def maxTracks_warning_def Let_def)

lemma encodePlaylist_untokened:
  "trackEncoder (new_PlaylistEncoder no_options) = new_TrackEncoder no_options"
  "validate (options (new_PlaylistEncoder no_options))"
  "maxTracks (options (new_PlaylistEncoder no_options)) = 1000"
  by (simp_all add: new_PlaylistEncoder_def new_TrackEncoder_def no_options_def default_of_def)

text \<open>
  Claim C7 as the code has it.  For a playlist with a non-empty track sequence that the cap
  does not cut (\<open>maxTracks \<le> 0\<close> or at most \<open>maxTracks\<close> tracks), \<open>splitPlaylist\<close> by 2 ends;
  it returns chunks exactly when validation is off or \<open>selectedTrack \<ge> 0\<close>, and every track
  has a token or a record that can be encoded.  \<open>mergePlaylists\<close> of the chunks then returns
  a playlist with the records of the original, in the same order; a track that had a token
  is returned as it was, a track that had none comes back with the token of its record.
  When every track has a token, the merged track sequence is the original one, token for
  token.
\<close>

theorem split_merge_inverse:
  assumes ne: "tracks p \<noteq> []"
    and m: "maxTracks (options this) \<le> 0 \<or> int (length (tracks p)) \<le> maxTracks (options this)"
  shows "\<exists>lines r.
           splitPlaylist this p 2 = Some (lines, r)
         \<and> ((\<exists>chunks. r = Inr chunks) \<longleftrightarrow>
              (validate (options this) \<longrightarrow> 0 \<le> selectedTrack (info_p p))
              \<and> list_all (encodable (trackEncoder this)) (tracks p))
         \<and> (\<forall>chunks. r = Inr chunks \<longrightarrow>
               (\<exists>lines' merged.
                   mergePlaylists this chunks None = (lines', Inr merged)
                 \<and> map info (tracks merged) = map info (tracks p)
                 \<and> tracks merged = map (encoded (trackEncoder this)) (tracks p)
                 \<and> (\<forall>k < length (tracks p).
                       track (tracks p ! k) \<noteq> [] \<longrightarrow> tracks merged ! k = tracks p ! k)
                 \<and> ((\<forall>t \<in> set (tracks p). track t \<noteq> []) \<longrightarrow>
                       tracks merged = tracks p
                     \<and> map track (tracks merged) = map track (tracks p))))"
proof -
  define K where "K = (length (tracks p) + 2 - 1) div 2"
  define te where "te = trackEncoder this"
  have c: "0 < (2::nat)" by simp
  from split_result [OF c, of this p] obtain W r where
    W: "splitPlaylist this p 2 = Some (W, r)"
    and r: "if \<forall>j < K. chunk_accepted this p 2 j
            then r = Inr (map (expected_chunk this p 2) [0..<K])
            else (\<exists>e. r = Inl e)"
    unfolding K_def by auto
  have K: "0 < K" using ne chunk_index [OF c, of 0 "length (tracks p)"] by (simp add: K_def)
  have id: "limited this (take 2 (drop (k * 2) (tracks p))) = take 2 (drop (k * 2) (tracks p))" for k
    using m by (intro limited_id) auto
  have acc: "(\<forall>j < K. chunk_accepted this p 2 j) \<longleftrightarrow>
               (validate (options this) \<longrightarrow> 0 \<le> selectedTrack (info_p p))
               \<and> list_all (encodable te) (tracks p)"
  proof -
    have "(\<forall>j < K. chunk_accepted this p 2 j) \<longleftrightarrow>
            (\<forall>j < K. validate (options this) \<and> j = 0 \<longrightarrow> 0 \<le> selectedTrack (info_p p))
            \<and> (\<forall>j < K. list_all (encodable te) (take 2 (drop (j * 2) (tracks p))))"
      unfolding chunk_accepted_def id te_def by blast
    also have "(\<forall>j < K. validate (options this) \<and> j = 0 \<longrightarrow> 0 \<le> selectedTrack (info_p p))
                 \<longleftrightarrow> (validate (options this) \<longrightarrow> 0 \<le> selectedTrack (info_p p))"
      using K by blast
    also have "(\<forall>j < K. list_all (encodable te) (take 2 (drop (j * 2) (tracks p))))
                 \<longleftrightarrow> list_all (encodable te) (tracks p)"
      unfolding K_def by (rule list_all_chunks [OF c])
    finally show ?thesis .
  qed
  have iff: "(\<exists>chunks. r = Inr chunks) \<longleftrightarrow>
              (validate (options this) \<longrightarrow> 0 \<le> selectedTrack (info_p p))
              \<and> list_all (encodable te) (tracks p)"
    unfolding acc [symmetric] using r by (auto split: if_splits)
  have res: "\<exists>lines' merged.
                   mergePlaylists this chunks None = (lines', Inr merged)
                 \<and> map info (tracks merged) = map info (tracks p)
                 \<and> tracks merged = map (encoded te) (tracks p)
                 \<and> (\<forall>k < length (tracks p).
                       track (tracks p ! k) \<noteq> [] \<longrightarrow> tracks merged ! k = tracks p ! k)
                 \<and> ((\<forall>t \<in> set (tracks p). track t \<noteq> []) \<longrightarrow>
                       tracks merged = tracks p
                     \<and> map track (tracks merged) = map track (tracks p))"
    if rc: "r = Inr chunks" for chunks
  proof -
    from rc iff have sel: "validate (options this) \<longrightarrow> 0 \<le> selectedTrack (info_p p)"
      and enc: "list_all (encodable te) (tracks p)" by blast+
    from rc r have chunks: "chunks = map (expected_chunk this p 2) [0..<K]"
      by (auto split: if_splits)
    have "map tracks chunks = map (\<lambda>k. map (encoded te) (take 2 (drop (k * 2) (tracks p)))) [0..<K]"
      by (simp add: chunks expected_chunk_def id te_def)
    then have "concat (map tracks chunks)
                 = map (encoded te) (concat (map (\<lambda>k. take 2 (drop (k * 2) (tracks p))) [0..<K]))"
      by (simp add: map_concat o_def)
    also have "\<dots> = map (encoded te) (take (K * 2) (tracks p))"
      by (simp only: concat_chunks)
    also have "\<dots> = map (encoded te) (tracks p)"
      using chunk_count_cover [OF c, of "length (tracks p)"] by (simp add: K_def)
    finally have all: "concat (map tracks chunks) = map (encoded te) (tracks p)" .
    define ch where "ch = expected_chunk this p 2 0"
    have "[0..<K] = 0 # [Suc 0..<K]" using K by (rule upt_conv_Cons)
    then have chs: "chunks = ch # map (expected_chunk this p 2) [Suc 0..<K]"
      by (simp add: chunks ch_def)
    have first_ne: "take 2 (tracks p) \<noteq> []" using ne by simp
    have sel0: "validate (options this) \<longrightarrow> 0 \<le> selectedTrack (info_p ch)"
      using sel limited_nonempty [OF first_ne, of this]
      by (cases "limited this (take 2 (tracks p))") (auto simp: ch_def expected_chunk_def)
    let ?pi = "\<lparr> name = ''Merged Playlist ('' @ string_of_nat (length chunks) @ '' playlists)'',
                 selectedTrack = selectedTrack (info_p ch) \<rparr>"
    let ?ts = "map (encoded te) (tracks p)"
    have lim: "limited this ?ts = ?ts" using m by (intro limited_id) simp
    have v: "validate (options this) \<longrightarrow> name ?pi \<noteq> [] \<and> 0 \<le> selectedTrack ?pi \<and> ?ts \<noteq> []"
      using sel0 ne by simp
    have a: "list_all (encodable (trackEncoder this)) (limited this ?ts)"
      unfolding lim using enc by (simp add: list_all_iff encodable_encoded te_def)
    from encodePlaylist_accepts [OF v a] obtain w where
      w: "encodePlaylist this ?pi ?ts
         = (w, Inr \<lparr> info_p = \<lparr> name = name ?pi,
                                selectedTrack = min (selectedTrack ?pi) (int (length (limited this ?ts)) - 1) \<rparr>,
                     pluginInfo = [],
                     tracks = map (encoded (trackEncoder this)) (limited this ?ts) \<rparr>)" by blast
    have tr: "map (encoded (trackEncoder this)) (limited this ?ts) = ?ts"
      unfolding lim by (simp add: te_def encoded_idem)
    have "(case chunks of [] \<Rightarrow> 0 | playlist # _ \<Rightarrow> selectedTrack (info_p playlist))
                     = selectedTrack (info_p ch)"
      by (simp add: chs)
    then have mp: "mergePlaylists this chunks None = encodePlaylist this ?pi ?ts"
      unfolding mergePlaylists_def Let_def all by simp
    define merged where
      "merged = \<lparr> info_p = \<lparr> name = name ?pi,
                                selectedTrack = min (selectedTrack ?pi) (int (length (limited this ?ts)) - 1) \<rparr>,
                     pluginInfo = [], tracks = ?ts \<rparr>"
    have 1: "mergePlaylists this chunks None = (w, Inr merged)"
      unfolding mp w tr merged_def ..
    have 2: "tracks merged = ?ts" by (simp add: merged_def)
    have 3: "map info (tracks merged) = map info (tracks p)"
      unfolding 2 by (rule encoded_info)
    have 4: "\<forall>k < length (tracks p). track (tracks p ! k) \<noteq> [] \<longrightarrow> tracks merged ! k = tracks p ! k"
      unfolding 2 by (simp add: encoded_def)
    have 5: "(\<forall>t \<in> set (tracks p). track t \<noteq> []) \<longrightarrow>
                 tracks merged = tracks p \<and> map track (tracks merged) = map track (tracks p)"
      unfolding 2 using encoded_tokens [of "tracks p" te] by simp
    from 1 3 2 4 5 show ?thesis
      by (intro exI [of _ w] exI [of _ merged] conjI)
  qed
  from res have res': "\<forall>chunks. r = Inr chunks \<longrightarrow>
               (\<exists>lines' merged.
                   mergePlaylists this chunks None = (lines', Inr merged)
                 \<and> map info (tracks merged) = map info (tracks p)
                 \<and> tracks merged = map (encoded te) (tracks p)
                 \<and> (\<forall>k < length (tracks p).
                       track (tracks p ! k) \<noteq> [] \<longrightarrow> tracks merged ! k = tracks p ! k)
                 \<and> ((\<forall>t \<in> set (tracks p). track t \<noteq> []) \<longrightarrow>
                       tracks merged = tracks p
                     \<and> map track (tracks merged) = map track (tracks p)))"
    by (intro allI impI)
  from W iff res' show ?thesis
    unfolding te_def by (intro exI [of _ W] exI [of _ r] conjI)
qed

theorem split_merge_inverse_witness:
  "\<exists>lines chunks lines' merged.
      splitPlaylist (new_PlaylistEncoder no_options) (example_playlist 1) 2 = Some (lines, Inr chunks)
    \<and> mergePlaylists (new_PlaylistEncoder no_options) chunks None = (lines', Inr merged)
    \<and> map track (tracks merged) = [''a'', ''b'', ''c'']"
proof -
  let ?pe = "new_PlaylistEncoder no_options"
  let ?p = "example_playlist 1"
  have 1: "tracks ?p \<noteq> []" by (simp add: example_playlist_def)
  have 2: "maxTracks (options ?pe) \<le> 0 \<or> int (length (tracks ?p)) \<le> maxTracks (options ?pe)"
    by (simp add: encodePlaylist_untokened example_playlist_def)
  have 3: "\<forall>t \<in> set (tracks ?p). track t \<noteq> []"
    by (simp add: example_playlist_def example_track_def)
  have 4: "(validate (options ?pe) \<longrightarrow> 0 \<le> selectedTrack (info_p ?p))
           \<and> list_all (encodable (trackEncoder ?pe)) (tracks ?p)"
    using encodable_tokens [OF 3] by (simp add: example_playlist_def)
  have 5: "map track (tracks ?p) = [''a'', ''b'', ''c'']"
    by (simp add: example_playlist_def example_track_def)
  show ?thesis
    using split_merge_inverse [OF 1 2]
  proof (elim exE conjE, goal_cases)
    case (1 lines r)
    from 1(2) 4 obtain chunks where r: "r = Inr chunks" by blast
    from 1(3) [rule_format, OF r] obtain lines' merged where
      mg: "mergePlaylists ?pe chunks None = (lines', Inr merged)"
      and tk: "(\<forall>t \<in> set (tracks ?p). track t \<noteq> []) \<longrightarrow>
                 tracks merged = tracks ?p \<and> map track (tracks merged) = map track (tracks ?p)"
      by (elim exE conjE)
    from tk 3 have "map track (tracks merged) = map track (tracks ?p)" by blast
    then have "map track (tracks merged) = [''a'', ''b'', ''c'']" unfolding 5 .
    with 1(1) r mg show ?case
      by (intro exI [of _ lines] exI [of _ chunks] exI [of _ lines'] exI [of _ merged] conjI)
        simp_all
  qed
qed

text \<open>
  Claim C7 as stated fails for a playlist with a track that has no token: the first track
  of the example comes back from \<open>splitPlaylist\<close> and \<open>mergePlaylists\<close> with the token of its
  record, so that the merged tokens are not the original ones.
\<close>

theorem split_merge_counterexample:
  "map track (tracks untokened_playlist) = [[], ''b'', ''c'']
   \<and> splitPlaylist (new_PlaylistEncoder no_options) untokened_playlist 2 =
     Some ([], Inr [\<lparr> info_p = \<lparr> name = ''mix (Part 1)'', selectedTrack = 0 \<rparr>, pluginInfo = [],
                       tracks = [example_track ''eyJpZGVudGlmaWVyIjoiaWQiLCJpc1NlZWthYmxlIjp0cnVlLCJhdXRob3IiOiJhdSIsImxlbmd0aCI6MTAwMCwiaXNTdHJlYW0iOmZhbHNlLCJwb3NpdGlvbiI6MCwidGl0bGUiOiJ0aSIsInVyaSI6InUiLCJzb3VyY2VOYW1lIjoic3JjIn0='',
                                 example_track ''b''] \<rparr>,
                    \<lparr> info_p = \<lparr> name = ''mix (Part 2)'', selectedTrack = 0 \<rparr>, pluginInfo = [],
                       tracks = [example_track ''c''] \<rparr>])
   \<and> mergePlaylists (new_PlaylistEncoder no_options)
          [\<lparr> info_p = \<lparr> name = ''mix (Part 1)'', selectedTrack = 0 \<rparr>, pluginInfo = [],
              tracks = [example_track ''eyJpZGVudGlmaWVyIjoiaWQiLCJpc1NlZWthYmxlIjp0cnVlLCJhdXRob3IiOiJhdSIsImxlbmd0aCI6MTAwMCwiaXNTdHJlYW0iOmZhbHNlLCJwb3NpdGlvbiI6MCwidGl0bGUiOiJ0aSIsInVyaSI6InUiLCJzb3VyY2VOYW1lIjoic3JjIn0='',
                        example_track ''b''] \<rparr>,
           \<lparr> info_p = \<lparr> name = ''mix (Part 2)'', selectedTrack = 0 \<rparr>, pluginInfo = [],
              tracks = [example_track ''c''] \<rparr>] None
     = ([], Inr \<lparr> info_p = \<lparr> name = ''Merged Playlist (2 playlists)'', selectedTrack = 0 \<rparr>,
                   pluginInfo = [],
                   tracks = [example_track ''eyJpZGVudGlmaWVyIjoiaWQiLCJpc1NlZWthYmxlIjp0cnVlLCJhdXRob3IiOiJhdSIsImxlbmd0aCI6MTAwMCwiaXNTdHJlYW0iOmZhbHNlLCJwb3NpdGlvbiI6MCwidGl0bGUiOiJ0aSIsInVyaSI6InUiLCJzb3VyY2VOYW1lIjoic3JjIn0='',
                             example_track ''b'', example_track ''c''] \<rparr>)"
proof -
  let ?pe = "new_PlaylistEncoder no_options"
  let ?t = "example_track ''eyJpZGVudGlmaWVyIjoiaWQiLCJpc1NlZWthYmxlIjp0cnVlLCJhdXRob3IiOiJhdSIsImxlbmd0aCI6MTAwMCwiaXNTdHJlYW0iOmZhbHNlLCJwb3NpdGlvbiI6MCwidGl0bGUiOiJ0aSIsInVyaSI6InUiLCJzb3VyY2VOYW1lIjoic3JjIn0=''"
  have t: "encodeTrack (new_TrackEncoder no_options) (info (example_track [])) = Inr ?t"
    by (simp add: example_track_def encodeTrack_example)
  have k: "track (example_track []) = []" "track (example_track ''b'') \<noteq> []"
    "track (example_track ''c'') \<noteq> []" "track ?t \<noteq> []"
    by (simp_all add: example_track_def)
  have e1: "encodePlaylist ?pe \<lparr> name = ''mix (Part 1)'', selectedTrack = 0 \<rparr>
              [example_track [], example_track ''b'']
            = ([], Inr \<lparr> info_p = \<lparr> name = ''mix (Part 1)'', selectedTrack = 0 \<rparr>, pluginInfo = [],
                          tracks = [?t, example_track ''b''] \<rparr>)"
    by (simp add: encodePlaylist_def Let_def validatePlaylistInfo_def validateTracks_def
          encodePlaylist_untokened slice_def t k)
  have e2: "encodePlaylist ?pe \<lparr> name = ''mix (Part 2)'', selectedTrack = 0 \<rparr> [example_track ''c'']
            = ([], Inr \<lparr> info_p = \<lparr> name = ''mix (Part 2)'', selectedTrack = 0 \<rparr>, pluginInfo = [],
                          tracks = [example_track ''c''] \<rparr>)"
    by (simp add: encodePlaylist_def Let_def validatePlaylistInfo_def validateTracks_def
          encodePlaylist_untokened slice_def k)
  have e3: "encodePlaylist ?pe \<lparr> name = ''Merged Playlist (2 playlists)'', selectedTrack = 0 \<rparr>
              [?t, example_track ''b'', example_track ''c'']
            = ([], Inr \<lparr> info_p = \<lparr> name = ''Merged Playlist (2 playlists)'', selectedTrack = 0 \<rparr>,
                          pluginInfo = [],
                          tracks = [?t, example_track ''b'', example_track ''c''] \<rparr>)"
    by (simp add: encodePlaylist_def Let_def validatePlaylistInfo_def validateTracks_def
          encodePlaylist_untokened slice_def k)
  have 1: "map track (tracks untokened_playlist) = [[], ''b'', ''c'']"
    by (simp add: untokened_playlist_def example_track_def)
  have 2: "splitPlaylist ?pe untokened_playlist 2 =
     Some ([], Inr [\<lparr> info_p = \<lparr> name = ''mix (Part 1)'', selectedTrack = 0 \<rparr>, pluginInfo = [],
                       tracks = [?t, example_track ''b''] \<rparr>,
                    \<lparr> info_p = \<lparr> name = ''mix (Part 2)'', selectedTrack = 0 \<rparr>, pluginInfo = [],
                       tracks = [example_track ''c''] \<rparr>])"
    by (simp add: splitPlaylist_def splitPlaylist_loop.simps untokened_playlist_def slice_def
          part_number_def string_of_int_def string_of_nat.simps digit_char_simps Let_def e1 e2)
  have 3: "mergePlaylists ?pe
          [\<lparr> info_p = \<lparr> name = ''mix (Part 1)'', selectedTrack = 0 \<rparr>, pluginInfo = [],
              tracks = [?t, example_track ''b''] \<rparr>,
           \<lparr> info_p = \<lparr> name = ''mix (Part 2)'', selectedTrack = 0 \<rparr>, pluginInfo = [],
              tracks = [example_track ''c''] \<rparr>] None
     = ([], Inr \<lparr> info_p = \<lparr> name = ''Merged Playlist (2 playlists)'', selectedTrack = 0 \<rparr>,
                   pluginInfo = [],
                   tracks = [?t, example_track ''b'', example_track ''c''] \<rparr>)"
    by (simp add: mergePlaylists_def Let_def string_of_nat.simps digit_char_simps e3)
  from 1 2 3 show ?thesis by (intro conjI)
qed

end
